theory Spec2Isabelle
  imports Complex_Main
begin

section \<open>Scalars and tensors\<close>

text \<open>
  A torch scalar is a finite value or one of the IEEE special values that division and
  square root produce. Finite values are computed exactly here: rounding and overflow are
  not part of this model, and zeros carry no sign (a zero divisor acts as \<open>+0.0\<close>).
\<close>

datatype fl = Fin real | PInf | NInf | NaN

fun fneg :: "fl \<Rightarrow> fl" where
  "fneg (Fin a) = Fin (- a)"
| "fneg PInf = NInf"
| "fneg NInf = PInf"
| "fneg NaN = NaN"

fun fadd :: "fl \<Rightarrow> fl \<Rightarrow> fl" where
  "fadd (Fin a) (Fin b) = Fin (a + b)"
| "fadd NaN _ = NaN"
| "fadd _ NaN = NaN"
| "fadd PInf NInf = NaN"
| "fadd NInf PInf = NaN"
| "fadd PInf _ = PInf"
| "fadd _ PInf = PInf"
| "fadd NInf _ = NInf"
| "fadd _ NInf = NInf"

definition fsub :: "fl \<Rightarrow> fl \<Rightarrow> fl" where
  "fsub a b = fadd a (fneg b)"

fun fmul :: "fl \<Rightarrow> fl \<Rightarrow> fl" where
  "fmul (Fin a) (Fin b) = Fin (a * b)"
| "fmul NaN _ = NaN"
| "fmul _ NaN = NaN"
| "fmul (Fin a) PInf = (if a = 0 then NaN else if 0 < a then PInf else NInf)"
| "fmul (Fin a) NInf = (if a = 0 then NaN else if 0 < a then NInf else PInf)"
| "fmul PInf (Fin b) = (if b = 0 then NaN else if 0 < b then PInf else NInf)"
| "fmul NInf (Fin b) = (if b = 0 then NaN else if 0 < b then NInf else PInf)"
| "fmul PInf PInf = PInf"
| "fmul PInf NInf = NInf"
| "fmul NInf PInf = NInf"
| "fmul NInf NInf = PInf"

fun fdiv :: "fl \<Rightarrow> fl \<Rightarrow> fl" where
  "fdiv (Fin a) (Fin b) =
     (if b = 0 then (if a = 0 then NaN else if 0 < a then PInf else NInf) else Fin (a / b))"
| "fdiv NaN _ = NaN"
| "fdiv _ NaN = NaN"
| "fdiv (Fin a) PInf = Fin 0"
| "fdiv (Fin a) NInf = Fin 0"
| "fdiv PInf (Fin b) = (if b < 0 then NInf else PInf)"
| "fdiv NInf (Fin b) = (if b < 0 then PInf else NInf)"
| "fdiv PInf PInf = NaN"
| "fdiv PInf NInf = NaN"
| "fdiv NInf PInf = NaN"
| "fdiv NInf NInf = NaN"

text \<open>\<open>th.sqrt\<close>: the square root of a negative number is NaN.\<close>

fun fsqrt :: "fl \<Rightarrow> fl" where
  "fsqrt (Fin a) = (if a < 0 then NaN else Fin (sqrt a))"
| "fsqrt PInf = PInf"
| "fsqrt NInf = NaN"
| "fsqrt NaN = NaN"

fun fexp :: "fl \<Rightarrow> fl" where
  "fexp (Fin a) = Fin (exp a)"
| "fexp PInf = PInf"
| "fexp NInf = Fin 0"
| "fexp NaN = NaN"

text \<open>Comparison \<open>a < b\<close>: every comparison with NaN is false.\<close>

fun flt :: "fl \<Rightarrow> fl \<Rightarrow> bool" where
  "flt (Fin a) (Fin b) = (a < b)"
| "flt NaN _ = False"
| "flt _ NaN = False"
| "flt NInf NInf = False"
| "flt NInf _ = True"
| "flt _ NInf = False"
| "flt PInf _ = False"
| "flt _ PInf = True"

definition fgt :: "fl \<Rightarrow> fl \<Rightarrow> bool" where
  "fgt a b = flt b a"

type_synonym vec = "fl list"

definition vadd :: "vec \<Rightarrow> vec \<Rightarrow> vec" where
  "vadd xs ys = map2 fadd xs ys"

definition vsub :: "vec \<Rightarrow> vec \<Rightarrow> vec" where
  "vsub xs ys = map2 fsub xs ys"

definition vmul :: "vec \<Rightarrow> vec \<Rightarrow> vec" where
  "vmul xs ys = map2 fmul xs ys"

definition vscale :: "fl \<Rightarrow> vec \<Rightarrow> vec" where
  "vscale c xs = map (fmul c) xs"

definition vexp :: "vec \<Rightarrow> vec" where
  "vexp xs = map fexp xs"

definition vsum :: "vec \<Rightarrow> fl" where
  "vsum xs = foldl fadd (Fin 0) xs"

text \<open>\<open>th.matmul\<close> of two one-dimensional tensors.\<close>

definition matmul :: "vec \<Rightarrow> vec \<Rightarrow> fl" where
  "matmul xs ys = vsum (vmul xs ys)"

text \<open>\<open>x.mean()\<close>: the mean of an empty tensor is \<open>0 / 0\<close>, that is NaN.\<close>

definition vmean :: "vec \<Rightarrow> fl" where
  "vmean xs = fdiv (vsum xs) (Fin (real (length xs)))"

text \<open>
  \<open>x.std()\<close> with Bessel's correction: the sum of squared deviations is divided by
  \<open>max 0 (n - 1)\<close>, so one element (or none) gives NaN.
\<close>

definition vstd :: "vec \<Rightarrow> fl" where
  "vstd xs =
     fsqrt (fdiv (vsum (map (\<lambda>x. fmul (fsub x (vmean xs)) (fsub x (vmean xs))) xs))
                 (Fin (real (length xs - 1))))"

text \<open>
  A tensor is its shape and its elements in row-major order. The elementwise operations
  pair the elements up; the shapes of their arguments agree wherever the automatic
  differentiation returns gradients of the shape of their parameter, which is its contract.
\<close>

record tensor =
  tshape :: "nat list"
  tdata :: vec

definition numel :: "tensor \<Rightarrow> nat" where
  "numel t = length (tdata t)"

definition view :: "vec \<Rightarrow> nat list \<Rightarrow> tensor" where
  "view xs shp = \<lparr>tshape = shp, tdata = xs\<rparr>"

definition tscale :: "fl \<Rightarrow> tensor \<Rightarrow> tensor" where
  "tscale c t = t\<lparr>tdata := vscale c (tdata t)\<rparr>"

definition tadd :: "tensor \<Rightarrow> tensor \<Rightarrow> tensor" where
  "tadd a b = a\<lparr>tdata := vadd (tdata a) (tdata b)\<rparr>"

text \<open>The values of all parameters, by parameter name.\<close>

type_synonym store = "string \<Rightarrow> tensor"

section \<open>Construction\<close>

datatype error = AssertionError | ZeroDivisionError | RuntimeError | AttributeError


text \<open>
  The attributes of a \<open>TRPO\<close> object that the update reads. \<open>env_num_envs\<close> is
  \<open>self.env.num_envs\<close>, or \<open>None\<close> when there is no environment.
\<close>

record trpo =
  env_num_envs :: "int option"
  n_steps :: int
  batch_size :: int
  normalize_advantage :: bool
  cg_max_steps :: int
  cg_damping :: fl
  line_search_shrinking_factor :: fl
  line_search_max_iter :: int
  target_kl :: fl
  n_critic_updates :: int
  sub_sampling_factor :: int
  discrete_actions :: bool


section \<open>The policy and its collaborators\<close>

text \<open>
  A policy owns its parameters under their names, in the order of \<open>named_parameters()\<close>.
  A parameter object is identified by its name; \<open>param_data\<close> holds its values and
  \<open>param_grad\<close> its \<open>.grad\<close> attribute.
\<close>

record policy =
  param_names :: "string list"
  param_data :: store
  param_grad :: "string \<Rightarrow> tensor option"

text \<open>One batch of the rollout buffer (\<open>RolloutBufferSamples\<close>).\<close>

record ('o, 'a) rollout_samples =
  observations :: "'o list"
  actions :: "'a list"
  old_values :: "vec option"
  old_log_prob :: vec
  advantages :: vec
  returns :: "vec option"

text \<open>
  What the update takes from outside this file: the network's forward pass, the
  distributions, the automatic differentiation, the solver and \<open>flat_grad\<close> of
  \<open>sb3_contrib.common.utils\<close>, the optimizer and the rollout buffer.

  A tensor that carries a computation graph is the function from the values of the
  parameters to its value; differentiating it with respect to a parameter gives
  \<open>None\<close> when the parameter is not in the graph, or the gradient, again as such a
  function so that it can be differentiated once more.
\<close>

record ('o, 'a, 'd) collab =
  get_distribution :: "store \<Rightarrow> 'o list \<Rightarrow> 'd"
  log_prob :: "'d \<Rightarrow> 'a list \<Rightarrow> vec"
  kl_divergence :: "'d \<Rightarrow> 'd \<Rightarrow> vec"
  predict_values :: "store \<Rightarrow> 'o list \<Rightarrow> vec"
  long_flatten :: "'a list \<Rightarrow> 'a list"
  autograd_grad :: "(store \<Rightarrow> fl) \<Rightarrow> string \<Rightarrow> (store \<Rightarrow> tensor) option"
  flat_grad :: "(store \<Rightarrow> fl) \<Rightarrow> string list \<Rightarrow> bool \<Rightarrow> store \<Rightarrow> vec"
  conjugate_gradient_solver :: "(vec \<Rightarrow> vec) \<Rightarrow> vec \<Rightarrow> int \<Rightarrow> vec"
  optimizer_step :: "policy \<Rightarrow> policy"
  rollout_get_all :: "('o, 'a) rollout_samples"
  rollout_get :: "nat \<Rightarrow> int \<Rightarrow> ('o, 'a) rollout_samples list"

section \<open>The gradient extractor\<close>

text \<open>Python's \<open>sub in s\<close> on strings.\<close>

fun str_contains :: "string \<Rightarrow> string \<Rightarrow> bool" where
  "str_contains sub [] = (sub = [])"
| "str_contains sub (c # cs) = (take (length sub) (c # cs) = sub \<or> str_contains sub cs)"

text \<open>The calls of \<open>th.autograd.grad\<close>, in the order they are made.\<close>

datatype grad_call = KLGrad string | ObjectiveGrad string

record grad_lists =
  policy_objective_gradients_list :: "vec list"
  grad_kl_list :: "(store \<Rightarrow> vec) list"
  acc_grad_shape :: "nat list list"
  acc_actor_params :: "string list"
  grad_calls :: "grad_call list"

text \<open>
  The loop of \<open>_compute_actor_grad\<close> over \<open>named_parameters()\<close>. The gradient of the
  divergence is asked with \<open>allow_unused=True\<close>, the gradient of the objective
  without, so that an objective that does not reach the parameter raises.
\<close>

fun actor_grad_loop ::
  "('o, 'a, 'd) collab \<Rightarrow> (store \<Rightarrow> fl) \<Rightarrow> (store \<Rightarrow> fl) \<Rightarrow> store \<Rightarrow>
   string list \<Rightarrow> grad_lists \<Rightarrow> error + grad_lists" where
  "actor_grad_loop env kl_div policy_objective \<theta> [] acc = Inr acc"
| "actor_grad_loop env kl_div policy_objective \<theta> (name # rest) acc =
     (if str_contains ''value'' name
      then actor_grad_loop env kl_div policy_objective \<theta> rest acc
      else
        (case autograd_grad env kl_div name of
           None \<Rightarrow>
             actor_grad_loop env kl_div policy_objective \<theta> rest
               (acc\<lparr>grad_calls := grad_calls acc @ [KLGrad name]\<rparr>)
         | Some kl_param_grad \<Rightarrow>
             (case autograd_grad env policy_objective name of
                None \<Rightarrow> Inl RuntimeError
              | Some policy_objective_grad \<Rightarrow>
                  actor_grad_loop env kl_div policy_objective \<theta> rest
                    \<lparr>policy_objective_gradients_list =
                       policy_objective_gradients_list acc @ [tdata (policy_objective_grad \<theta>)],
                     grad_kl_list = grad_kl_list acc @ [\<lambda>\<theta>'. tdata (kl_param_grad \<theta>')],
                     acc_grad_shape = acc_grad_shape acc @ [tshape (kl_param_grad \<theta>)],
                     acc_actor_params = acc_actor_params acc @ [name],
                     grad_calls = grad_calls acc @ [KLGrad name, ObjectiveGrad name]\<rparr>)))"

definition empty_grad_lists :: grad_lists where
  "empty_grad_lists =
     \<lparr>policy_objective_gradients_list = [], grad_kl_list = [], acc_grad_shape = [],
      acc_actor_params = [], grad_calls = []\<rparr>"

text \<open>
  \<open>_compute_actor_grad\<close>: the actor parameters, the flattened gradient of the objective,
  the flattened gradient of the divergence (with its graph), the shapes; and the calls of
  the differentiation. \<open>th.cat\<close> of an empty list raises.
\<close>

definition compute_actor_grad ::
  "('o, 'a, 'd) collab \<Rightarrow> policy \<Rightarrow> (store \<Rightarrow> fl) \<Rightarrow> (store \<Rightarrow> fl) \<Rightarrow>
   error + ((string list \<times> vec \<times> (store \<Rightarrow> vec) \<times> nat list list) \<times> grad_call list)" where
  "compute_actor_grad env pol kl_div policy_objective =
     (case actor_grad_loop env kl_div policy_objective (param_data pol) (param_names pol)
             empty_grad_lists of
        Inl e \<Rightarrow> Inl e
      | Inr acc \<Rightarrow>
          if policy_objective_gradients_list acc = [] then Inl RuntimeError
          else Inr ((acc_actor_params acc,
                     concat (policy_objective_gradients_list acc),
                     (\<lambda>\<theta>'. concat (map (\<lambda>g. g \<theta>') (grad_kl_list acc))),
                     acc_grad_shape acc),
                    grad_calls acc))"

text \<open>The parameters the extractor keeps: not named for the value function, and in the graph
  of the divergence.\<close>

definition selected :: "('o, 'a, 'd) collab \<Rightarrow> (store \<Rightarrow> fl) \<Rightarrow> string \<Rightarrow> bool" where
  "selected env kl_div name \<longleftrightarrow>
     \<not> str_contains ''value'' name \<and> autograd_grad env kl_div name \<noteq> None"

section \<open>The Hessian-vector product and the step size\<close>

text \<open>
  \<open>hessian_vector_product\<close>: the gradient of \<open>(grad_kl * vector).sum()\<close> with respect to
  the parameters, flattened by \<open>flat_grad\<close>, plus the damping term.
\<close>

definition hessian_vector_product ::
  "trpo \<Rightarrow> ('o, 'a, 'd) collab \<Rightarrow> store \<Rightarrow> string list \<Rightarrow> (store \<Rightarrow> vec) \<Rightarrow>
   vec \<Rightarrow> bool \<Rightarrow> vec" where
  "hessian_vector_product self env \<theta> params grad_kl vector retain_graph =
     (let jacobian_vector_product = (\<lambda>\<theta>'. vsum (vmul (grad_kl \<theta>') vector))
      in vadd (flat_grad env jacobian_vector_product params retain_graph \<theta>)
              (vscale (cg_damping self) vector))"

text \<open>The maximal step length of \<open>train\<close>: \<open>2 * target_kl\<close>, divided in place, then the root.\<close>

definition max_step_size :: "trpo \<Rightarrow> vec \<Rightarrow> (vec \<Rightarrow> bool \<Rightarrow> vec) \<Rightarrow> fl" where
  "max_step_size self search_direction hessian_vector_product_fn =
     (let line_search_max_step_size = fmul (Fin 2) (target_kl self);
          line_search_max_step_size =
            fdiv line_search_max_step_size
              (matmul search_direction (hessian_vector_product_fn search_direction False))
      in fsqrt line_search_max_step_size)"

section \<open>The batch\<close>

text \<open>The slice \<open>xs[::k]\<close>: every \<open>k\<close>-th element, from the first.\<close>

fun stride :: "nat \<Rightarrow> 'x list \<Rightarrow> 'x list" where
  "stride k [] = []"
| "stride k (x # xs) = x # stride k (drop (k - 1) xs)"

definition sub_sample :: "trpo \<Rightarrow> ('o, 'a) rollout_samples \<Rightarrow> ('o, 'a) rollout_samples" where
  "sub_sample self rollout_data =
     (if sub_sampling_factor self > 1
      then \<lparr>observations = stride (nat (sub_sampling_factor self)) (observations rollout_data),
            actions = stride (nat (sub_sampling_factor self)) (actions rollout_data),
            old_values = None,
            old_log_prob = stride (nat (sub_sampling_factor self)) (old_log_prob rollout_data),
            advantages = stride (nat (sub_sampling_factor self)) (advantages rollout_data),
            returns = None\<rparr>
      else rollout_data)"

text \<open>\<open>(advantages - advantages.mean()) / (advantages.std() + 1e-8)\<close>.\<close>

definition normalize :: "vec \<Rightarrow> vec" where
  "normalize adv = map (\<lambda>a. fdiv (fsub a (vmean adv)) (fadd (vstd adv) (Fin (1 / 10 ^ 8)))) adv"

text \<open>The advantages that \<open>train\<close> uses, from the batch it was given.\<close>

definition train_advantages :: "trpo \<Rightarrow> ('o, 'a) rollout_samples \<Rightarrow> vec" where
  "train_advantages self full_batch =
     (let rollout_data = sub_sample self full_batch
      in if normalize_advantage self then normalize (advantages rollout_data)
         else advantages rollout_data)"

text \<open>The surrogate objective \<open>(advantages * th.exp(log_prob - old_log_prob)).mean()\<close>.\<close>

definition surrogate :: "vec \<Rightarrow> vec \<Rightarrow> vec \<Rightarrow> fl" where
  "surrogate adv logp old_logp = vmean (vmul adv (vexp (vsub logp old_logp)))"

section \<open>The line search\<close>

text \<open>The local variables of \<open>train\<close> that the line search reads and does not change.\<close>

record ('o, 'a, 'd) locals =
  l_observations :: "'o list"
  l_actions :: "'a list"
  l_old_log_prob :: vec
  l_advantages :: vec
  l_old_distribution :: 'd
  l_policy_objective :: fl
  l_actor_params :: "string list"
  l_original_actor_params :: "tensor list"
  l_grad_shape :: "nat list list"
  l_max_step_size :: fl
  l_search_direction :: vec
  l_first_distribution :: 'd

text \<open>
  The inner loop of the line search over \<open>zip(actor_params, original_actor_params,
  grad_shape)\<close>: every parameter becomes its original plus the scaled slice of the search
  direction. \<open>s\<close> is \<open>line_search_backtrack_coeff * line_search_max_step_size\<close>.
\<close>

fun apply_step ::
  "(string \<times> tensor \<times> nat list) list \<Rightarrow> fl \<Rightarrow> vec \<Rightarrow> nat \<Rightarrow> store \<Rightarrow> store" where
  "apply_step [] s x start_idx \<theta> = \<theta>"
| "apply_step ((param, original_param, shape) # rest) s x start_idx \<theta> =
     (let n_params = numel (\<theta> param) in
      apply_step rest s x (start_idx + n_params)
        (\<theta>(param := tadd original_param
                      (tscale s (view (take n_params (drop start_idx x)) shape)))))"

definition zipped_params :: "('o, 'a, 'd) locals \<Rightarrow> (string \<times> tensor \<times> nat list) list" where
  "zipped_params L = zip (l_actor_params L) (zip (l_original_actor_params L) (l_grad_shape L))"

text \<open>The parameters of one trial, from the current coefficient and parameters.\<close>

definition trial :: "('o, 'a, 'd) locals \<Rightarrow> fl \<Rightarrow> store \<Rightarrow> store" where
  "trial L coeff \<theta> =
     apply_step (zipped_params L) (fmul coeff (l_max_step_size L)) (l_search_direction L) 0 \<theta>"

definition new_objective :: "('o, 'a, 'd) collab \<Rightarrow> ('o, 'a, 'd) locals \<Rightarrow> store \<Rightarrow> fl" where
  "new_objective env L \<theta> =
     surrogate (l_advantages L)
       (log_prob env (get_distribution env \<theta> (l_observations L)) (l_actions L))
       (l_old_log_prob L)"

definition new_kl :: "('o, 'a, 'd) collab \<Rightarrow> ('o, 'a, 'd) locals \<Rightarrow> store \<Rightarrow> fl" where
  "new_kl env L \<theta> =
     vmean (kl_divergence env (get_distribution env \<theta> (l_observations L))
              (l_old_distribution L))"

text \<open>The constraint criteria of one trial.\<close>

definition accepts :: "trpo \<Rightarrow> ('o, 'a, 'd) collab \<Rightarrow> ('o, 'a, 'd) locals \<Rightarrow> store \<Rightarrow> bool" where
  "accepts self env L \<theta> \<longleftrightarrow>
     flt (new_kl env L \<theta>) (target_kl self) \<and> fgt (new_objective env L \<theta>) (l_policy_objective L)"

text \<open>
  How the search ends: at an accepted trial, with its parameters, objective and divergence,
  or with the budget spent, at the parameters of the last trial.
\<close>

datatype outcome = Accepted store fl fl | Exhausted store

text \<open>
  The backtracking loop, with the iterations left, the current coefficient and parameters,
  and the pairs of distributions given to \<open>kl_divergence\<close> so far.
\<close>

fun line_search ::
  "trpo \<Rightarrow> ('o, 'a, 'd) collab \<Rightarrow> ('o, 'a, 'd) locals \<Rightarrow> nat \<Rightarrow> fl \<Rightarrow> store \<Rightarrow>
   ('d \<times> 'd) list \<Rightarrow> outcome \<times> ('d \<times> 'd) list" where
  "line_search self env L 0 coeff \<theta> kl_calls = (Exhausted \<theta>, kl_calls)"
| "line_search self env L (Suc k) coeff \<theta> kl_calls =
     (let \<theta>' = trial L coeff \<theta>;
          distribution = get_distribution env \<theta>' (l_observations L);
          new_policy_objective = new_objective env L \<theta>';
          kl_div = new_kl env L \<theta>';
          kl_calls' = kl_calls @ [(distribution, l_old_distribution L)]
      in if flt kl_div (target_kl self) \<and> fgt new_policy_objective (l_policy_objective L)
         then (Accepted \<theta>' new_policy_objective kl_div, kl_calls')
         else line_search self env L k
                (fmul coeff (line_search_shrinking_factor self)) \<theta>' kl_calls')"

text \<open>The coefficient and the parameters of trial \<open>i\<close>, as the loop reaches them.\<close>

fun backtrack_coeff :: "fl \<Rightarrow> nat \<Rightarrow> fl" where
  "backtrack_coeff c 0 = Fin 1"
| "backtrack_coeff c (Suc i) = fmul (backtrack_coeff c i) c"

fun trial_store :: "trpo \<Rightarrow> ('o, 'a, 'd) locals \<Rightarrow> store \<Rightarrow> nat \<Rightarrow> store" where
  "trial_store self L \<theta> 0 = trial L (Fin 1) \<theta>"
| "trial_store self L \<theta> (Suc i) =
     trial L (backtrack_coeff (line_search_shrinking_factor self) (Suc i)) (trial_store self L \<theta> i)"

text \<open>The revert loop over \<open>zip(actor_params, original_actor_params)\<close>.\<close>

fun revert :: "(string \<times> tensor) list \<Rightarrow> store \<Rightarrow> store" where
  "revert [] \<theta> = \<theta>"
| "revert ((param, original_param) # rest) \<theta> = revert rest (\<theta>(param := original_param))"

text \<open>The parameters before trial \<open>m\<close>: the ones \<open>train\<close> started from, then those of the
  trial before.\<close>

definition params_before :: "trpo \<Rightarrow> ('o, 'a, 'd) locals \<Rightarrow> store \<Rightarrow> nat \<Rightarrow> store" where
  "params_before self L \<theta> m = (case m of 0 \<Rightarrow> \<theta> | Suc i \<Rightarrow> trial_store self L \<theta> i)"


section \<open>The actor update\<close>

text \<open>\<open>optimizer.zero_grad()\<close>: every \<open>.grad\<close> is set to \<open>None\<close>.\<close>

definition zero_grad :: "policy \<Rightarrow> policy" where
  "zero_grad pol = pol\<lparr>param_grad := (\<lambda>name. None)\<rparr>"

text \<open>
  The local variables of \<open>train\<close> before the gradients: the batch (sub-sampled when the
  factor is above 1), the actions, the snapshot of the old distribution, and the objective
  and the divergence with their graphs. The buffer gives the whole batch in one go, so the
  loop over it has one iteration. The old distribution is computed under \<open>no_grad\<close> and
  copied; it is a value here, which later assignments to the parameters cannot reach.
\<close>

definition train_rollout_data ::
  "trpo \<Rightarrow> ('o, 'a, 'd) collab \<Rightarrow> ('o, 'a) rollout_samples" where
  "train_rollout_data self env = sub_sample self (rollout_get_all env)"

definition train_actions :: "trpo \<Rightarrow> ('o, 'a, 'd) collab \<Rightarrow> 'a list" where
  "train_actions self env =
     (if discrete_actions self then long_flatten env (actions (train_rollout_data self env))
      else actions (train_rollout_data self env))"

definition train_old_distribution :: "trpo \<Rightarrow> ('o, 'a, 'd) collab \<Rightarrow> policy \<Rightarrow> 'd" where
  "train_old_distribution self env pol =
     get_distribution env (param_data pol) (observations (train_rollout_data self env))"

definition train_policy_objective :: "trpo \<Rightarrow> ('o, 'a, 'd) collab \<Rightarrow> store \<Rightarrow> fl" where
  "train_policy_objective self env \<theta> =
     (let distribution = get_distribution env \<theta> (observations (train_rollout_data self env));
          logp = log_prob env distribution (train_actions self env)
      in surrogate (train_advantages self (rollout_get_all env)) logp
           (old_log_prob (train_rollout_data self env)))"

definition train_kl_div :: "trpo \<Rightarrow> ('o, 'a, 'd) collab \<Rightarrow> policy \<Rightarrow> store \<Rightarrow> fl" where
  "train_kl_div self env pol \<theta> =
     (let distribution = get_distribution env \<theta> (observations (train_rollout_data self env))
      in vmean (kl_divergence env distribution (train_old_distribution self env pol)))"

text \<open>
  \<open>train\<close> up to the line search: the gradients, the search direction of the solver (which
  calls the Hessian-vector product with \<open>retain_graph=True\<close>), the maximal step length and
  the copies of the actor parameters.
\<close>

definition search_setup ::
  "trpo \<Rightarrow> ('o, 'a, 'd) collab \<Rightarrow> policy \<Rightarrow> error + (('o, 'a, 'd) locals \<times> grad_call list)" where
  "search_setup self env pol =
     (case compute_actor_grad env (zero_grad pol) (train_kl_div self env pol)
             (train_policy_objective self env) of
        Inl e \<Rightarrow> Inl e
      | Inr ((actor_params, policy_objective_gradients, grad_kl, grad_shape), calls) \<Rightarrow>
          (let hessian_vector_product_fn =
                 hessian_vector_product self env (param_data pol) actor_params grad_kl;
               search_direction =
                 conjugate_gradient_solver env (\<lambda>v. hessian_vector_product_fn v True)
                   policy_objective_gradients (cg_max_steps self)
           in Inr (\<lparr>l_observations = observations (train_rollout_data self env),
                     l_actions = train_actions self env,
                     l_old_log_prob = old_log_prob (train_rollout_data self env),
                     l_advantages = train_advantages self (rollout_get_all env),
                     l_old_distribution = train_old_distribution self env pol,
                     l_policy_objective = train_policy_objective self env (param_data pol),
                     l_actor_params = actor_params,
                     l_original_actor_params = map (param_data pol) actor_params,
                     l_grad_shape = grad_shape,
                     l_max_step_size =
                       max_step_size self search_direction hessian_vector_product_fn,
                     l_search_direction = search_direction,
                     l_first_distribution =
                       get_distribution env (param_data pol)
                         (observations (train_rollout_data self env))\<rparr>,
                   calls)))"

text \<open>
  What the actor update leaves: the policy, the actor parameters, the values appended to
  \<open>policy_objective_values\<close>, \<open>kl_divergences\<close> and \<open>line_search_results\<close>, and the pairs of
  distributions that were given to \<open>kl_divergence\<close>.
\<close>

record 'd actor_result =
  a_policy :: policy
  a_actor_params :: "string list"
  a_policy_objective_value :: fl
  a_kl_divergence :: fl
  a_line_search_result :: bool
  a_kl_calls :: "('d \<times> 'd) list"

definition finish_search ::
  "('o, 'a, 'd) locals \<Rightarrow> policy \<Rightarrow> outcome \<times> ('d \<times> 'd) list \<Rightarrow> 'd actor_result" where
  "finish_search L pol res =
     (case fst res of
        Exhausted \<theta>' \<Rightarrow>
          \<lparr>a_policy =
             pol\<lparr>param_data :=
                   revert (zip (l_actor_params L) (l_original_actor_params L)) \<theta>'\<rparr>,
           a_actor_params = l_actor_params L,
           a_policy_objective_value = l_policy_objective L,
           a_kl_divergence = Fin 0,
           a_line_search_result = False,
           a_kl_calls = snd res\<rparr>
      | Accepted \<theta>' new_policy_objective kl_div \<Rightarrow>
          \<lparr>a_policy = pol\<lparr>param_data := \<theta>'\<rparr>,
           a_actor_params = l_actor_params L,
           a_policy_objective_value = new_policy_objective,
           a_kl_divergence = kl_div,
           a_line_search_result = True,
           a_kl_calls = snd res\<rparr>)"

definition actor_update ::
  "trpo \<Rightarrow> ('o, 'a, 'd) collab \<Rightarrow> policy \<Rightarrow> error + 'd actor_result" where
  "actor_update self env pol =
     (case search_setup self env pol of
        Inl e \<Rightarrow> Inl e
      | Inr (L, calls) \<Rightarrow>
          Inr (finish_search L (zero_grad pol)
                 (line_search self env L (nat (line_search_max_iter self)) (Fin 1)
                    (param_data pol) [(l_first_distribution L, l_old_distribution L)])))"

section \<open>The critic update\<close>

text \<open>\<open>F.mse_loss(input, target)\<close> with the default reduction.\<close>

definition mse_loss :: "vec \<Rightarrow> vec \<Rightarrow> fl" where
  "mse_loss inp target = vmean (map (\<lambda>d. fmul d d) (vsub inp target))"

text \<open>
  \<open>loss.backward()\<close>: the gradient of the loss is accumulated in the \<open>.grad\<close> of every
  parameter in its graph.
\<close>

definition backward :: "('o, 'a, 'd) collab \<Rightarrow> (store \<Rightarrow> fl) \<Rightarrow> policy \<Rightarrow> policy" where
  "backward env loss pol =
     pol\<lparr>param_grad :=
           (\<lambda>name. if name \<in> set (param_names pol)
                    then (case autograd_grad env loss name of
                            None \<Rightarrow> param_grad pol name
                          | Some g \<Rightarrow>
                              (case param_grad pol name of
                                 None \<Rightarrow> Some (g (param_data pol))
                               | Some old \<Rightarrow> Some (tadd old (g (param_data pol)))))
                    else param_grad pol name)\<rparr>"

text \<open>\<open>for param in actor_params: param.grad = None\<close>.\<close>

fun clear_grads :: "string list \<Rightarrow> policy \<Rightarrow> policy" where
  "clear_grads [] pol = pol"
| "clear_grads (param # rest) pol =
     clear_grads rest (pol\<lparr>param_grad := (param_grad pol)(param := None)\<rparr>)"

text \<open>One minibatch of the critic update; a batch without returns has nothing to regress to.\<close>

definition critic_step ::
  "('o, 'a, 'd) collab \<Rightarrow> string list \<Rightarrow> ('o, 'a) rollout_samples \<Rightarrow> policy \<Rightarrow>
   error + (policy \<times> fl)" where
  "critic_step env actor_params rollout_data pol =
     (case returns rollout_data of
        None \<Rightarrow> Inl AttributeError
      | Some rets \<Rightarrow>
          (let value_loss =
                 (\<lambda>\<theta>. mse_loss rets (predict_values env \<theta> (observations rollout_data)));
               loss_item = value_loss (param_data pol);
               pol = zero_grad pol;
               pol = backward env value_loss pol;
               pol = clear_grads actor_params pol;
               pol = optimizer_step env pol
           in Inr (pol, loss_item)))"

fun critic_pass ::
  "('o, 'a, 'd) collab \<Rightarrow> string list \<Rightarrow> ('o, 'a) rollout_samples list \<Rightarrow> policy \<Rightarrow>
   fl list \<Rightarrow> error + (policy \<times> fl list)" where
  "critic_pass env actor_params [] pol value_losses = Inr (pol, value_losses)"
| "critic_pass env actor_params (rollout_data # rest) pol value_losses =
     (case critic_step env actor_params rollout_data pol of
        Inl e \<Rightarrow> Inl e
      | Inr (pol', value_loss) \<Rightarrow>
          critic_pass env actor_params rest pol' (value_losses @ [value_loss]))"

text \<open>
  The passes of the critic update: \<open>k\<close> passes are left, \<open>i\<close> have been made. The buffer
  gives the minibatches of pass \<open>i\<close> for the minibatch size.
\<close>

fun critic_update ::
  "trpo \<Rightarrow> ('o, 'a, 'd) collab \<Rightarrow> string list \<Rightarrow> nat \<Rightarrow> nat \<Rightarrow> policy \<Rightarrow> fl list \<Rightarrow>
   error + (policy \<times> fl list)" where
  "critic_update self env actor_params 0 i pol value_losses = Inr (pol, value_losses)"
| "critic_update self env actor_params (Suc k) i pol value_losses =
     (case critic_pass env actor_params (rollout_get env i (batch_size self)) pol value_losses of
        Inl e \<Rightarrow> Inl e
      | Inr (pol', value_losses') \<Rightarrow>
          critic_update self env actor_params k (Suc i) pol' value_losses')"

section \<open>The train step\<close>

text \<open>
  \<open>train\<close>: the actor update on the whole batch, then the critic update. The result holds
  the policy and the lists whose means \<open>train\<close> hands to the logger. The training-mode
  switch, the learning-rate schedule, the update counter and the explained variance do
  not touch the parameters and are left out.
\<close>

record 'd train_result =
  r_policy :: policy
  policy_objective_values :: "fl list"
  kl_divergences :: "fl list"
  line_search_results :: "bool list"
  value_losses :: "fl list"
  r_kl_calls :: "('d \<times> 'd) list"

definition train ::
  "trpo \<Rightarrow> ('o, 'a, 'd) collab \<Rightarrow> policy \<Rightarrow> error + 'd train_result" where
  "train self env pol =
     (case actor_update self env pol of
        Inl e \<Rightarrow> Inl e
      | Inr a \<Rightarrow>
          (case critic_update self env (a_actor_params a) (nat (n_critic_updates self)) 0
                  (a_policy a) [] of
             Inl e \<Rightarrow> Inl e
           | Inr (pol', losses) \<Rightarrow>
               Inr \<lparr>r_policy = pol',
                    policy_objective_values = [a_policy_objective_value a],
                    kl_divergences = [a_kl_divergence a],
                    line_search_results = [a_line_search_result a],
                    value_losses = losses,
                    r_kl_calls = a_kl_calls a\<rparr>))"

section \<open>The order the specification recommends\<close>

text \<open>
  The specification recommends to normalise the advantages over the whole batch and to
  sub-sample afterwards. This definition follows its words, to be compared with
  \<open>train_advantages\<close>, which follows the code.
\<close>

definition normalize_then_stride :: "trpo \<Rightarrow> ('o, 'a) rollout_samples \<Rightarrow> vec" where
  "normalize_then_stride self full_batch =
     stride (nat (sub_sampling_factor self)) (normalize (advantages full_batch))"

section \<open>A small instance\<close>

text \<open>The default arguments of \<open>TRPO.__init__\<close>, with one environment.\<close>

definition default_trpo :: trpo where
  "default_trpo =
     \<lparr>env_num_envs = Some 1, n_steps = 2048, batch_size = 128, normalize_advantage = True,
      cg_max_steps = 15, cg_damping = Fin (1 / 10), line_search_shrinking_factor = Fin (8 / 10),
      line_search_max_iter = 10, target_kl = Fin (1 / 100), n_critic_updates = 10,
      sub_sampling_factor = 1, discrete_actions = False\<rparr>"

text \<open>
  A policy with one actor parameter, one parameter outside the graph of the divergence and
  one parameter of the value function; the distribution is the actor parameter itself, its
  log-probability too, and the divergence is a quarter of the squared difference. The
  gradients are constant; the actor parameter is shared with the value network, so the
  backward pass of the value loss reaches it.
\<close>

definition first_elem :: "tensor \<Rightarrow> fl" where
  "first_elem t = (case tdata t of [] \<Rightarrow> NaN | w # _ \<Rightarrow> w)"

definition scalar_tensor :: "fl \<Rightarrow> tensor" where
  "scalar_tensor v = \<lparr>tshape = [1], tdata = [v]\<rparr>"

definition ex_trpo :: "int \<Rightarrow> trpo" where
  "ex_trpo max_iter =
     default_trpo\<lparr>normalize_advantage := False, line_search_max_iter := max_iter,
                  n_critic_updates := 2\<rparr>"

definition ex_policy :: policy where
  "ex_policy =
     \<lparr>param_names = [''action_net.weight'', ''features.bias'', ''value_net.weight''],
      param_data = (\<lambda>name. if name = ''action_net.weight'' then scalar_tensor (Fin 0)
                            else if name = ''features.bias'' then scalar_tensor (Fin 5)
                            else scalar_tensor (Fin 1)),
      param_grad = (\<lambda>name. None)\<rparr>"

definition ex_batch :: "(nat, nat) rollout_samples" where
  "ex_batch = \<lparr>observations = [0], actions = [0], old_values = Some [Fin 1],
               old_log_prob = [Fin 0], advantages = [Fin 2], returns = Some [Fin 3]\<rparr>"

definition ex_env :: "(nat, nat, vec) collab" where
  "ex_env =
     \<lparr>get_distribution = (\<lambda>\<theta> obs. map (\<lambda>_. first_elem (\<theta> ''action_net.weight'')) obs),
      log_prob = (\<lambda>d acts. d),
      kl_divergence = (\<lambda>d1 d2. map2 (\<lambda>a b. fdiv (fmul (fsub a b) (fsub a b)) (Fin 4)) d1 d2),
      predict_values = (\<lambda>\<theta> obs. map (\<lambda>_. first_elem (\<theta> ''value_net.weight'')) obs),
      long_flatten = (\<lambda>acts. acts),
      autograd_grad = (\<lambda>f name. if name = ''features.bias'' then None
                                   else Some (\<lambda>\<theta>. scalar_tensor (Fin 1))),
      flat_grad = (\<lambda>f params retain_graph \<theta>. [Fin (4 / 100)]),
      conjugate_gradient_solver = (\<lambda>hvp b max_iter. [Fin (1 / 10)]),
      optimizer_step =
        (\<lambda>pol. pol\<lparr>param_data :=
                      (\<lambda>name. case param_grad pol name of
                                 None \<Rightarrow> param_data pol name
                               | Some g \<Rightarrow>
                                   tadd (param_data pol name) (tscale (Fin (- 1 / 1000)) g))\<rparr>),
      rollout_get_all = ex_batch,
      rollout_get = (\<lambda>i size. [ex_batch])\<rparr>"


text \<open>What \<open>train\<close> has computed for this policy when the line search starts.\<close>

definition ex_locals :: "(nat, nat, vec) locals" where
  "ex_locals =
     \<lparr>l_observations = [0], l_actions = [0], l_old_log_prob = [Fin 0], l_advantages = [Fin 2],
      l_old_distribution = [Fin 0], l_policy_objective = Fin 2,
      l_actor_params = [''action_net.weight''],
      l_original_actor_params = [scalar_tensor (Fin 0)],
      l_grad_shape = [[1]], l_max_step_size = Fin 2, l_search_direction = [Fin (1 / 10)],
      l_first_distribution = [Fin 0]\<rparr>"

definition ex_calls :: "grad_call list" where
  "ex_calls = [KLGrad ''action_net.weight'', ObjectiveGrad ''action_net.weight'',
               KLGrad ''features.bias'']"

text \<open>A batch of five advantages, for the sub-sampling with factor 2.\<close>

definition ex_batch5 :: "(nat, nat) rollout_samples" where
  "ex_batch5 = \<lparr>observations = [0, 1, 2, 3, 4], actions = [0, 0, 0, 0, 0],
                old_values = Some [Fin 0, Fin 0, Fin 0, Fin 0, Fin 0],
                old_log_prob = [Fin 0, Fin 0, Fin 0, Fin 0, Fin 0],
                advantages = [Fin 0, Fin 2, Fin 1, Fin 10, Fin 2],
                returns = Some [Fin 0, Fin 0, Fin 0, Fin 0, Fin 0]\<rparr>"

section \<open>Construction: properties\<close>



section \<open>The gradient extractor: properties\<close>

lemma actor_grad_loop_Inr:
  "actor_grad_loop env kl obj \<theta> names acc = Inr acc' \<Longrightarrow>
     acc_actor_params acc' = acc_actor_params acc @ filter (selected env kl) names
   \<and> policy_objective_gradients_list acc' = policy_objective_gradients_list acc @
        map (\<lambda>n. tdata (the (autograd_grad env obj n) \<theta>)) (filter (selected env kl) names)
   \<and> grad_kl_list acc' = grad_kl_list acc @
        map (\<lambda>n \<theta>'. tdata (the (autograd_grad env kl n) \<theta>')) (filter (selected env kl) names)
   \<and> acc_grad_shape acc' = acc_grad_shape acc @
        map (\<lambda>n. tshape (the (autograd_grad env kl n) \<theta>)) (filter (selected env kl) names)
   \<and> (\<forall>n \<in> set (filter (selected env kl) names). autograd_grad env obj n \<noteq> None)
   \<and> set (grad_calls acc') \<subseteq> set (grad_calls acc) \<union> KLGrad ` set names
        \<union> ObjectiveGrad ` set (filter (selected env kl) names)"
proof (induction names arbitrary: acc)
  case Nil
  then show ?case by simp
next
  case (Cons name rest)
  show ?case
  proof (cases "str_contains ''value'' name")
    case True
    with Cons.prems have "actor_grad_loop env kl obj \<theta> rest acc = Inr acc'" by simp
    from Cons.IH[OF this] True show ?thesis by (auto simp: selected_def)
  next
    case nv: False
    show ?thesis
    proof (cases "autograd_grad env kl name")
      case None
      with nv Cons.prems have "actor_grad_loop env kl obj \<theta> rest
               (acc\<lparr>grad_calls := grad_calls acc @ [KLGrad name]\<rparr>) = Inr acc'" by simp
      from Cons.IH[OF this] None show ?thesis by (auto simp: selected_def)
    next
      case (Some g)
      with nv Cons.prems obtain h where h: "autograd_grad env obj name = Some h"
        by (auto split: option.splits)
      with nv Some Cons.prems have "actor_grad_loop env kl obj \<theta> rest
                    \<lparr>policy_objective_gradients_list =
                       policy_objective_gradients_list acc @ [tdata (h \<theta>)],
                     grad_kl_list = grad_kl_list acc @ [\<lambda>\<theta>'. tdata (g \<theta>')],
                     acc_grad_shape = acc_grad_shape acc @ [tshape (g \<theta>)],
                     acc_actor_params = acc_actor_params acc @ [name],
                     grad_calls = grad_calls acc @ [KLGrad name, ObjectiveGrad name]\<rparr> = Inr acc'"
        by simp
      from Cons.IH[OF this] nv Some h show ?thesis by (auto simp: selected_def)
    qed
  qed
qed

lemma actor_grad_loop_Inl_iff:
  "(\<exists>e. actor_grad_loop env kl obj \<theta> names acc = Inl e) \<longleftrightarrow>
   (\<exists>m \<in> set names. selected env kl m \<and> autograd_grad env obj m = None)"
  by (induction names arbitrary: acc) (auto simp: selected_def split: option.splits)

lemma actor_grad_loop_error:
  "actor_grad_loop env kl obj \<theta> names acc = Inl e \<Longrightarrow> e = RuntimeError"
  by (induction names arbitrary: acc) (auto split: option.splits if_splits)


lemma compute_actor_grad_char:
  "map_sum id fst (compute_actor_grad env pol kl obj) =
     (if (\<exists>m \<in> set (param_names pol). selected env kl m \<and> autograd_grad env obj m = None)
         \<or> filter (selected env kl) (param_names pol) = []
      then Inl RuntimeError
      else Inr (filter (selected env kl) (param_names pol),
                concat (map (\<lambda>n. tdata (the (autograd_grad env obj n) (param_data pol)))
                          (filter (selected env kl) (param_names pol))),
                (\<lambda>\<theta>'. concat (map (\<lambda>n. tdata (the (autograd_grad env kl n) \<theta>'))
                          (filter (selected env kl) (param_names pol)))),
                map (\<lambda>n. tshape (the (autograd_grad env kl n) (param_data pol)))
                  (filter (selected env kl) (param_names pol))))"
proof (cases "actor_grad_loop env kl obj (param_data pol) (param_names pol) empty_grad_lists")
  case (Inl e)
  then have "e = RuntimeError" by (rule actor_grad_loop_error)
  moreover from Inl have "\<exists>m \<in> set (param_names pol).
      selected env kl m \<and> autograd_grad env obj m = None"
    using actor_grad_loop_Inl_iff[of env kl obj "param_data pol" "param_names pol" empty_grad_lists]
    by blast
  ultimately show ?thesis using Inl by (simp add: compute_actor_grad_def)
next
  case (Inr acc)
  then have no: "\<not> (\<exists>m \<in> set (param_names pol).
      selected env kl m \<and> autograd_grad env obj m = None)"
    using actor_grad_loop_Inl_iff[of env kl obj "param_data pol" "param_names pol" empty_grad_lists]
    by auto
  from actor_grad_loop_Inr[OF Inr] have f:
    "acc_actor_params acc = filter (selected env kl) (param_names pol)"
    "policy_objective_gradients_list acc =
        map (\<lambda>n. tdata (the (autograd_grad env obj n) (param_data pol)))
          (filter (selected env kl) (param_names pol))"
    "grad_kl_list acc =
        map (\<lambda>n \<theta>'. tdata (the (autograd_grad env kl n) \<theta>'))
          (filter (selected env kl) (param_names pol))"
    "acc_grad_shape acc =
        map (\<lambda>n. tshape (the (autograd_grad env kl n) (param_data pol)))
          (filter (selected env kl) (param_names pol))"
    by (simp_all add: empty_grad_lists_def)
  show ?thesis using Inr no f
    by (simp add: compute_actor_grad_def comp_def)
qed


lemma compute_actor_grad_outputs:
  assumes "compute_actor_grad env pol kl_div policy_objective = Inr ((ps, og, gk, sh), calls)"
  shows "(\<forall>n \<in> set ps. \<not> str_contains ''value'' n)
       \<and> ps = filter (selected env kl_div) (param_names pol)
       \<and> (\<forall>n \<in> set ps. autograd_grad env kl_div n \<noteq> None
                        \<and> autograd_grad env policy_objective n \<noteq> None)
       \<and> length sh = length ps
       \<and> sh = map (\<lambda>n. tshape (the (autograd_grad env kl_div n) (param_data pol))) ps
       \<and> og = concat (map (\<lambda>n. tdata (the (autograd_grad env policy_objective n)
                                          (param_data pol))) ps)
       \<and> (\<forall>\<theta>'. gk \<theta>' = concat (map (\<lambda>n. tdata (the (autograd_grad env kl_div n) \<theta>')) ps))"
proof -
  let ?sel = "filter (selected env kl_div) (param_names pol)"
  have c: "map_sum id fst (compute_actor_grad env pol kl_div policy_objective) =
           Inr (ps, og, gk, sh)"
    using assms by simp
  have ok: "\<not> ((\<exists>m \<in> set (param_names pol).
                 selected env kl_div m \<and> autograd_grad env policy_objective m = None)
             \<or> ?sel = [])"
    using c unfolding compute_actor_grad_char by (auto split: if_splits)
  have eqs: "ps = ?sel"
    "og = concat (map (\<lambda>n. tdata (the (autograd_grad env policy_objective n) (param_data pol))) ?sel)"
    "gk = (\<lambda>\<theta>'. concat (map (\<lambda>n. tdata (the (autograd_grad env kl_div n) \<theta>')) ?sel))"
    "sh = map (\<lambda>n. tshape (the (autograd_grad env kl_div n) (param_data pol))) ?sel"
    using c ok unfolding compute_actor_grad_char by auto
  have sel: "\<forall>n \<in> set ps. selected env kl_div n"
    using eqs(1) by simp
  have p1: "\<forall>n \<in> set ps. \<not> str_contains ''value'' n"
    using sel by (simp add: selected_def)
  have p3: "\<forall>n \<in> set ps. autograd_grad env kl_div n \<noteq> None
                        \<and> autograd_grad env policy_objective n \<noteq> None"
    using sel ok eqs(1) by (auto simp: selected_def)
  have p4: "length sh = length ps"
    using eqs(1,4) by simp
  from p1 p3 p4 eqs show ?thesis by simp
qed

text \<open>
  C6. Whatever the parameter set, no parameter in the returned actor list has \<open>value\<close> in
  its name, and the four outputs are aligned: the actor list is the kept parameters in the
  order of \<open>named_parameters()\<close>, the shape list has one shape per actor parameter, and
  each flattened gradient is the concatenation of one segment per actor parameter, all in
  that same order.
\<close>

theorem compute_actor_grad_aligned:
  assumes "compute_actor_grad env pol kl_div policy_objective = Inr ((ps, og, gk, sh), calls)"
  shows "(\<forall>n \<in> set ps. \<not> str_contains ''value'' n)
       \<and> ps = filter (selected env kl_div) (param_names pol)
       \<and> (\<forall>n \<in> set ps. autograd_grad env kl_div n \<noteq> None
                        \<and> autograd_grad env policy_objective n \<noteq> None)
       \<and> length sh = length ps
       \<and> sh = map (\<lambda>n. tshape (the (autograd_grad env kl_div n) (param_data pol))) ps
       \<and> og = concat (map (\<lambda>n. tdata (the (autograd_grad env policy_objective n)
                                          (param_data pol))) ps)
       \<and> (\<forall>\<theta>'. gk \<theta>' = concat (map (\<lambda>n. tdata (the (autograd_grad env kl_div n) \<theta>')) ps))"
  by (rule compute_actor_grad_outputs[OF assms])

text \<open>
  C7. A parameter that is not named for the value function and whose divergence gradient
  is absent changes nothing: the extractor ends as it would on the parameter set without
  it, the parameter is in no output, and the gradient of the objective is never asked for
  it. With such parameters present the extractor returns as soon as one parameter is kept
  and the objective reaches every kept parameter.
\<close>

theorem absent_gradient_excluded:
  assumes "\<not> str_contains ''value'' n" and "autograd_grad env kl_div n = None"
  shows "map_sum id fst (compute_actor_grad env pol kl_div policy_objective) =
         map_sum id fst (compute_actor_grad env
                           (pol\<lparr>param_names := filter (\<lambda>m. m \<noteq> n) (param_names pol)\<rparr>)
                           kl_div policy_objective)
       \<and> (\<forall>ps og gk sh calls.
            compute_actor_grad env pol kl_div policy_objective = Inr ((ps, og, gk, sh), calls)
            \<longrightarrow> n \<notin> set ps \<and> ObjectiveGrad n \<notin> set calls)
       \<and> ((\<exists>m \<in> set (param_names pol). selected env kl_div m)
            \<and> (\<forall>m \<in> set (param_names pol).
                  selected env kl_div m \<longrightarrow> autograd_grad env policy_objective m \<noteq> None)
            \<longrightarrow> (\<exists>r. compute_actor_grad env pol kl_div policy_objective = Inr r))"
proof -
  have ns: "\<not> selected env kl_div n"
    using assms(2) by (simp add: selected_def)
  have flt: "filter (selected env kl_div) (filter (\<lambda>m. m \<noteq> n) (param_names pol)) =
             filter (selected env kl_div) (param_names pol)"
    using ns by (induction "param_names pol") (auto simp: filter_id_conv intro: filter_cong)
  have ex: "(\<exists>m \<in> set (filter (\<lambda>m. m \<noteq> n) (param_names pol)).
               selected env kl_div m \<and> autograd_grad env policy_objective m = None) \<longleftrightarrow>
            (\<exists>m \<in> set (param_names pol).
               selected env kl_div m \<and> autograd_grad env policy_objective m = None)"
    using ns by auto
  have a: "map_sum id fst (compute_actor_grad env pol kl_div policy_objective) =
         map_sum id fst (compute_actor_grad env
                           (pol\<lparr>param_names := filter (\<lambda>m. m \<noteq> n) (param_names pol)\<rparr>)
                           kl_div policy_objective)"
    unfolding compute_actor_grad_char using flt ex by simp
  have b: "n \<notin> set ps \<and> ObjectiveGrad n \<notin> set calls"
    if r: "compute_actor_grad env pol kl_div policy_objective = Inr ((ps, og, gk, sh), calls)"
    for ps og gk sh calls
  proof -
    from r obtain acc where
      l: "actor_grad_loop env kl_div policy_objective (param_data pol) (param_names pol)
            empty_grad_lists = Inr acc"
      and ps: "ps = acc_actor_params acc" and cs: "calls = grad_calls acc"
      by (auto simp: compute_actor_grad_def split: sum.splits if_splits)
    from actor_grad_loop_Inr[OF l] ps cs ns show ?thesis
      by (auto simp: empty_grad_lists_def)
  qed
  have c: "\<exists>r. compute_actor_grad env pol kl_div policy_objective = Inr r"
    if "\<exists>m \<in> set (param_names pol). selected env kl_div m"
      and "\<forall>m \<in> set (param_names pol).
                  selected env kl_div m \<longrightarrow> autograd_grad env policy_objective m \<noteq> None"
  proof -
    have "filter (selected env kl_div) (param_names pol) \<noteq> []"
      using that(1) by (auto simp: filter_empty_conv)
    with that(2) have "\<exists>x. map_sum id fst (compute_actor_grad env pol kl_div policy_objective) = Inr x"
      unfolding compute_actor_grad_char by auto
    then show ?thesis
      by (cases "compute_actor_grad env pol kl_div policy_objective") auto
  qed
  from a b c show ?thesis by blast
qed

section \<open>The line search: properties\<close>




lemma revert_map:
  "revert (zip names (map f names)) \<theta> n = (if n \<in> set names then f n else \<theta> n)"
  by (induction names arbitrary: \<theta>) auto

lemma trial_at_before:
  "trial L (backtrack_coeff (line_search_shrinking_factor self) m) (params_before self L \<theta> m) =
   trial_store self L \<theta> m"
  by (cases m) (simp_all add: params_before_def)

lemma params_before_Suc: "params_before self L \<theta> (Suc m) = trial_store self L \<theta> m"
  by (simp add: params_before_def)

lemma line_search_char:
  "line_search self env L k (backtrack_coeff (line_search_shrinking_factor self) m)
      (params_before self L \<theta> m) calls = (out, calls') \<Longrightarrow>
   (case out of
      Accepted \<theta>' obj kl \<Rightarrow>
        (\<exists>i. m \<le> i \<and> i < m + k \<and> \<theta>' = trial_store self L \<theta> i
           \<and> accepts self env L (trial_store self L \<theta> i)
           \<and> (\<forall>j. m \<le> j \<and> j < i \<longrightarrow> \<not> accepts self env L (trial_store self L \<theta> j))
           \<and> obj = new_objective env L \<theta>' \<and> kl = new_kl env L \<theta>')
    | Exhausted \<theta>' \<Rightarrow>
        \<theta>' = params_before self L \<theta> (m + k)
        \<and> (\<forall>j. m \<le> j \<and> j < m + k \<longrightarrow> \<not> accepts self env L (trial_store self L \<theta> j)))"
proof (induction k arbitrary: m calls)
  case 0
  then show ?case by auto
next
  case (Suc k)
  show ?case
  proof (cases "accepts self env L (trial_store self L \<theta> m)")
    case True
    with Suc.prems have "out = Accepted (trial_store self L \<theta> m)
        (new_objective env L (trial_store self L \<theta> m)) (new_kl env L (trial_store self L \<theta> m))"
      by (simp add: Let_def trial_at_before accepts_def)
    with True show ?thesis by auto
  next
    case False
    with Suc.prems have "line_search self env L k
        (backtrack_coeff (line_search_shrinking_factor self) (Suc m))
        (params_before self L \<theta> (Suc m))
        (calls @ [(get_distribution env (trial_store self L \<theta> m) (l_observations L),
                   l_old_distribution L)]) = (out, calls')"
      by (auto simp: Let_def trial_at_before accepts_def params_before_Suc split: if_splits)
    note ih = Suc.IH[OF this]
    have low: "\<not> accepts self env L (trial_store self L \<theta> j)"
      if "m \<le> j" and "\<not> Suc m \<le> j" for j
      using that False by (simp add: not_less_eq_eq le_antisym)
    show ?thesis
    proof (cases out)
      case (Accepted \<theta>' obj kl)
      with ih obtain i where i: "Suc m \<le> i" "i < Suc m + k" "\<theta>' = trial_store self L \<theta> i"
        "accepts self env L (trial_store self L \<theta> i)"
        "\<forall>j. Suc m \<le> j \<and> j < i \<longrightarrow> \<not> accepts self env L (trial_store self L \<theta> j)"
        "obj = new_objective env L \<theta>'" "kl = new_kl env L \<theta>'"
        by auto
      have "\<forall>j. m \<le> j \<and> j < i \<longrightarrow> \<not> accepts self env L (trial_store self L \<theta> j)"
        using i(5) low by blast
      with i have "m \<le> i \<and> i < m + Suc k \<and> \<theta>' = trial_store self L \<theta> i
           \<and> accepts self env L (trial_store self L \<theta> i)
           \<and> (\<forall>j. m \<le> j \<and> j < i \<longrightarrow> \<not> accepts self env L (trial_store self L \<theta> j))
           \<and> obj = new_objective env L \<theta>' \<and> kl = new_kl env L \<theta>'"
        by simp
      then show ?thesis using Accepted by auto
    next
      case (Exhausted \<theta>')
      with ih have e: "\<theta>' = params_before self L \<theta> (Suc m + k)"
        "\<forall>j. Suc m \<le> j \<and> j < Suc m + k \<longrightarrow> \<not> accepts self env L (trial_store self L \<theta> j)"
        by auto
      have "\<forall>j. m \<le> j \<and> j < m + Suc k \<longrightarrow> \<not> accepts self env L (trial_store self L \<theta> j)"
        using e(2) low by (metis add_Suc add_Suc_right)
      with e(1) show ?thesis using Exhausted by simp
    qed
  qed
qed

lemma line_search_calls:
  "p \<in> set (snd (line_search self env L k coeff \<theta> calls)) \<Longrightarrow>
     p \<in> set calls \<or> snd p = l_old_distribution L"
proof (induction k arbitrary: coeff \<theta> calls)
  case 0
  then show ?case by simp
next
  case (Suc k)
  show ?case
  proof (cases "flt (new_kl env L (trial L coeff \<theta>)) (target_kl self) \<and>
                fgt (new_objective env L (trial L coeff \<theta>)) (l_policy_objective L)")
    case True
    with Suc.prems show ?thesis by (auto simp: Let_def)
  next
    case False
    with Suc.prems have "p \<in> set (snd (line_search self env L k
        (fmul coeff (line_search_shrinking_factor self)) (trial L coeff \<theta>)
        (calls @ [(get_distribution env (trial L coeff \<theta>) (l_observations L),
                   l_old_distribution L)])))"
      by (auto simp: Let_def)
    from Suc.IH[OF this] show ?thesis by auto
  qed
qed









lemma search_setup_fields:
  assumes "search_setup self env pol = Inr (L, calls)"
  shows "l_actor_params L = filter (selected env (train_kl_div self env pol)) (param_names pol)"
    and "l_original_actor_params L = map (param_data pol) (l_actor_params L)"
    and "length (l_grad_shape L) = length (l_actor_params L)"
    and "l_old_distribution L = train_old_distribution self env pol"
    and "l_first_distribution L = train_old_distribution self env pol"
    and "l_policy_objective L = train_policy_objective self env (param_data pol)"
    and "new_objective env L = train_policy_objective self env"
    and "new_kl env L = train_kl_div self env pol"
    and "l_observations L = observations (train_rollout_data self env)"
    and "l_advantages L = train_advantages self (rollout_get_all env)"
proof -
  from assms obtain ps og gk sh where
    c: "compute_actor_grad env (zero_grad pol) (train_kl_div self env pol)
          (train_policy_objective self env) = Inr ((ps, og, gk, sh), calls)"
    by (auto simp: search_setup_def Let_def split: sum.splits)
  note al = compute_actor_grad_outputs[OF c]
  have L: "L = \<lparr>l_observations = observations (train_rollout_data self env),
                     l_actions = train_actions self env,
                     l_old_log_prob = old_log_prob (train_rollout_data self env),
                     l_advantages = train_advantages self (rollout_get_all env),
                     l_old_distribution = train_old_distribution self env pol,
                     l_policy_objective = train_policy_objective self env (param_data pol),
                     l_actor_params = ps,
                     l_original_actor_params = map (param_data pol) ps,
                     l_grad_shape = sh,
                     l_max_step_size =
                       max_step_size self
                         (conjugate_gradient_solver env
                            (\<lambda>v. hessian_vector_product self env (param_data pol) ps gk v True)
                            og (cg_max_steps self))
                         (hessian_vector_product self env (param_data pol) ps gk),
                     l_search_direction =
                       conjugate_gradient_solver env
                         (\<lambda>v. hessian_vector_product self env (param_data pol) ps gk v True)
                         og (cg_max_steps self),
                     l_first_distribution =
                       get_distribution env (param_data pol)
                         (observations (train_rollout_data self env))\<rparr>"
    using assms c by (simp add: search_setup_def Let_def)
  show "l_actor_params L = filter (selected env (train_kl_div self env pol)) (param_names pol)"
    using al L by (simp add: zero_grad_def)
  show "l_original_actor_params L = map (param_data pol) (l_actor_params L)"
    using L by simp
  show "length (l_grad_shape L) = length (l_actor_params L)"
    using al L by simp
  show "l_old_distribution L = train_old_distribution self env pol" using L by simp
  show "l_first_distribution L = train_old_distribution self env pol"
    using L by (simp add: train_old_distribution_def)
  show "l_policy_objective L = train_policy_objective self env (param_data pol)" using L by simp
  show "new_objective env L = train_policy_objective self env"
    using L by (auto simp: new_objective_def train_policy_objective_def Let_def)
  show "new_kl env L = train_kl_div self env pol"
    using L by (auto simp: new_kl_def train_kl_div_def Let_def)
  show "l_observations L = observations (train_rollout_data self env)" using L by simp
  show "l_advantages L = train_advantages self (rollout_get_all env)" using L by simp
qed

lemma critic_pass_Inr:
  "\<forall>b \<in> set bs. returns b \<noteq> None \<Longrightarrow> \<exists>res. critic_pass env ap bs pol losses = Inr res"
  by (induction bs arbitrary: pol losses) (auto simp: critic_step_def Let_def)

lemma critic_update_Inr:
  "\<forall>i. \<forall>b \<in> set (rollout_get env i (batch_size self)). returns b \<noteq> None \<Longrightarrow>
   \<exists>res. critic_update self env ap k i pol losses = Inr res"
proof (induction k arbitrary: i pol losses)
  case 0
  then show ?case by simp
next
  case (Suc k)
  from Suc.prems obtain res where
    "critic_pass env ap (rollout_get env i (batch_size self)) pol losses = Inr res"
    using critic_pass_Inr by blast
  with Suc.IH[OF Suc.prems] show ?case by (cases res) simp
qed

lemma actor_update_eq:
  "search_setup self env pol = Inr (L, calls) \<Longrightarrow>
   actor_update self env pol =
     Inr (finish_search L (zero_grad pol)
            (line_search self env L (nat (line_search_max_iter self)) (Fin 1) (param_data pol)
               [(l_first_distribution L, l_old_distribution L)]))"
  by (simp add: actor_update_def)

lemma line_search_from_start:
  "line_search self env L k (Fin 1) \<theta> cs = (out, cs') \<Longrightarrow>
   (case out of
      Accepted \<theta>' obj kl \<Rightarrow>
        (\<exists>i < k. \<theta>' = trial_store self L \<theta> i
           \<and> accepts self env L (trial_store self L \<theta> i)
           \<and> (\<forall>j < i. \<not> accepts self env L (trial_store self L \<theta> j))
           \<and> obj = new_objective env L \<theta>' \<and> kl = new_kl env L \<theta>')
    | Exhausted \<theta>' \<Rightarrow>
        \<theta>' = params_before self L \<theta> k
        \<and> (\<forall>j < k. \<not> accepts self env L (trial_store self L \<theta> j)))"
  using line_search_char[of self env L k 0 \<theta> cs out cs']
  by (cases out) (auto simp: params_before_def)


text \<open>
  C4. When the line search ends with its budget spent, the train step returns: every actor
  parameter is the tensor it was before the step, the objective recorded is the one before
  the step, the divergence recorded is \<open>0.0\<close>, and the success flag is false.
\<close>

theorem revert_exact:
  assumes su: "search_setup self env pol = Inr (L, calls)"
    and ex: "fst (line_search self env L (nat (line_search_max_iter self)) (Fin 1)
                   (param_data pol) [(l_first_distribution L, l_old_distribution L)]) =
             Exhausted \<theta>'"
    and rets: "\<forall>i. \<forall>b \<in> set (rollout_get env i (batch_size self)). returns b \<noteq> None"
  shows "\<exists>a r. actor_update self env pol = Inr a
      \<and> \<not> a_line_search_result a
      \<and> a_actor_params a = l_actor_params L
      \<and> (\<forall>p \<in> set (a_actor_params a). param_data (a_policy a) p = param_data pol p)
      \<and> a_policy_objective_value a = train_policy_objective self env (param_data pol)
      \<and> a_kl_divergence a = Fin 0
      \<and> train self env pol = Inr r
      \<and> policy_objective_values r = [train_policy_objective self env (param_data pol)]
      \<and> kl_divergences r = [Fin 0]
      \<and> line_search_results r = [False]"
proof -
  note f = search_setup_fields[OF su]
  let ?res = "line_search self env L (nat (line_search_max_iter self)) (Fin 1)
                   (param_data pol) [(l_first_distribution L, l_old_distribution L)]"
  let ?a = "finish_search L (zero_grad pol) ?res"
  have au: "actor_update self env pol = Inr ?a"
    by (rule actor_update_eq[OF su])
  have a1: "\<not> a_line_search_result ?a" "a_kl_divergence ?a = Fin 0"
    "a_policy_objective_value ?a = train_policy_objective self env (param_data pol)"
    "a_actor_params ?a = l_actor_params L"
    using ex f(6) by (simp_all add: finish_search_def)
  have a2: "param_data (a_policy ?a) p = param_data pol p" if "p \<in> set (l_actor_params L)" for p
    using ex that by (simp add: finish_search_def f(2) revert_map)
  obtain pol' losses where cu: "critic_update self env (a_actor_params ?a)
      (nat (n_critic_updates self)) 0 (a_policy ?a) [] = Inr (pol', losses)"
    using critic_update_Inr[OF rets] by (metis surj_pair)
  let ?r = "\<lparr>r_policy = pol',
             policy_objective_values = [a_policy_objective_value ?a],
             kl_divergences = [a_kl_divergence ?a],
             line_search_results = [a_line_search_result ?a],
             value_losses = losses,
             r_kl_calls = a_kl_calls ?a\<rparr>"
  have tr: "train self env pol = Inr ?r"
    using au cu by (simp add: train_def)
  have r: "policy_objective_values ?r = [train_policy_objective self env (param_data pol)]"
    "kl_divergences ?r = [Fin 0]" "line_search_results ?r = [False]"
    using a1 by simp_all
  show ?thesis
    by (intro exI[of _ ?a] exI[of _ ?r] conjI) (use au a1 a2 tr r in simp_all)
qed

text \<open>
  C8. In one train step every call of \<open>kl_divergence\<close>, the first one and the one of each
  trial, takes as the old distribution the one computed from the parameters before the
  update; a divergence reported after a success is the divergence from that snapshot.
\<close>

theorem old_distribution_fixed:
  assumes "train self env pol = Inr r"
  shows "(\<forall>p \<in> set (r_kl_calls r).
            snd p = get_distribution env (param_data pol)
                      (observations (train_rollout_data self env)))
       \<and> r_kl_calls r \<noteq> []
       \<and> (line_search_results r = [True] \<longrightarrow>
            (\<exists>\<theta>'. kl_divergences r =
               [vmean (kl_divergence env
                         (get_distribution env \<theta>' (observations (train_rollout_data self env)))
                         (get_distribution env (param_data pol)
                            (observations (train_rollout_data self env))))]))"
proof -
  from assms obtain a where au: "actor_update self env pol = Inr a"
    and rc: "r_kl_calls r = a_kl_calls a" and rk: "kl_divergences r = [a_kl_divergence a]"
    and rs: "line_search_results r = [a_line_search_result a]"
    by (auto simp: train_def split: sum.splits)
  from au obtain L calls where su: "search_setup self env pol = Inr (L, calls)"
    by (auto simp: actor_update_def split: sum.splits)
  note f = search_setup_fields[OF su]
  let ?old = "get_distribution env (param_data pol) (observations (train_rollout_data self env))"
  have old: "l_old_distribution L = ?old" "l_first_distribution L = ?old"
    using f(4,5) by (simp_all add: train_old_distribution_def)
  obtain out cs where ls: "line_search self env L (nat (line_search_max_iter self)) (Fin 1)
      (param_data pol) [(l_first_distribution L, l_old_distribution L)] = (out, cs)"
    by (metis surj_pair)
  have a: "a = finish_search L (zero_grad pol) (out, cs)"
    using actor_update_eq[OF su] au ls by simp
  have cs: "a_kl_calls a = cs" using a by (cases out) (simp_all add: finish_search_def)
  have p1: "\<forall>p \<in> set cs. snd p = ?old"
  proof
    fix p assume "p \<in> set cs"
    then have "p \<in> set (snd (line_search self env L (nat (line_search_max_iter self)) (Fin 1)
      (param_data pol) [(l_first_distribution L, l_old_distribution L)]))"
      using ls by simp
    from line_search_calls[OF this] show "snd p = ?old" using old by auto
  qed
  have p2: "cs \<noteq> []"
  proof -
    have "\<And>coeff \<theta> c0. c0 \<noteq> [] \<Longrightarrow> snd (line_search self env L k coeff \<theta> c0) \<noteq> []" for k
      by (induction k) (auto simp: Let_def)
    from this[of "[(l_first_distribution L, l_old_distribution L)]"] ls show ?thesis
      by (metis list.distinct(1) snd_conv)
  qed
  have p3: "\<exists>\<theta>'. a_kl_divergence a = vmean (kl_divergence env
                         (get_distribution env \<theta>' (observations (train_rollout_data self env))) ?old)"
    if "a_line_search_result a"
  proof (cases out)
    case (Exhausted \<theta>')
    with that a show ?thesis by (simp add: finish_search_def)
  next
    case (Accepted \<theta>' obj kl)
    with line_search_from_start[OF ls] have "kl = new_kl env L \<theta>'" by auto
    with Accepted a show ?thesis
      by (auto simp: finish_search_def new_kl_def f(9) old)
  qed
  show ?thesis using p1 p2 p3 rc rk rs cs by auto
qed

section \<open>The step size: properties\<close>

lemma foldl_fadd_Fin: "foldl fadd (Fin a) (map Fin xs) = Fin (a + sum_list xs)"
  by (induction xs arbitrary: a) (simp_all add: add.assoc)

lemma vsum_Fin: "vsum (map Fin xs) = Fin (sum_list xs)"
  by (simp add: vsum_def foldl_fadd_Fin)

lemma vmul_Fin: "vmul (map Fin xs) (map Fin ys) = map Fin (map2 (*) xs ys)"
  by (auto simp: vmul_def zip_map_map)

lemma vadd_Fin: "vadd (map Fin xs) (map Fin ys) = map Fin (map2 (+) xs ys)"
  by (auto simp: vadd_def zip_map_map)

lemma vscale_Fin: "vscale (Fin d) (map Fin xs) = map Fin (map ((*) d) xs)"
  by (simp add: vscale_def)

lemma curvature_Fin:
  assumes "length gs = length xs"
  shows "matmul (map Fin xs) (vadd (map Fin gs) (vscale (Fin d) (map Fin xs))) =
         Fin (\<Sum>(x, g) \<leftarrow> zip xs gs. x * (g + d * x))"
proof -
  have "map2 (*) xs (map2 (+) gs (map ((*) d) xs)) = map (\<lambda>(x, g). x * (g + d * x)) (zip xs gs)"
    using assms
  proof (induction xs arbitrary: gs)
    case Nil
    then show ?case by simp
  next
    case (Cons x xs)
    then show ?case by (cases gs) simp_all
  qed
  then show ?thesis
    unfolding matmul_def vscale_Fin vadd_Fin vmul_Fin vsum_Fin by simp
qed

lemma length_hvp:
  "length (flat_grad env (\<lambda>\<theta>'. vsum (vmul (gk \<theta>') v)) ps rg \<theta>) = length v \<Longrightarrow>
   length (hessian_vector_product self env \<theta> ps gk v rg) = length v"
  by (simp add: hessian_vector_product_def vadd_def vscale_def)

lemma search_setup_of_grad:
  assumes "compute_actor_grad env (zero_grad pol) (train_kl_div self env pol)
             (train_policy_objective self env) = Inr ((ps, og, gk, sh), calls)"
  shows "\<exists>L. search_setup self env pol = Inr (L, calls)
      \<and> l_actor_params L = ps \<and> l_grad_shape L = sh
      \<and> l_search_direction L =
          conjugate_gradient_solver env
            (\<lambda>v. hessian_vector_product self env (param_data pol) ps gk v True) og
            (cg_max_steps self)
      \<and> l_max_step_size L =
          max_step_size self (l_search_direction L)
            (hessian_vector_product self env (param_data pol) ps gk)"
  using assms by (simp add: search_setup_def Let_def)

text \<open>
  C2. The maximal step length is the root of \<open>2 * target_kl\<close> divided by the product of
  the search direction \<open>x\<close> of the solver with \<open>Hv(x)\<close>, where \<open>Hv(v)\<close> is \<open>flat_grad\<close> of
  \<open>sum(grad_kl * v)\<close> with respect to the actor parameters plus \<open>cg_damping * v\<close>, as long
  as \<open>v\<close> when the flattened gradient is. With finite values and a positive denominator it
  is the real number \<open>sqrt (2 * target_kl / (x \<cdot> Hv(x)))\<close>.
\<close>

theorem max_step_size_formula:
  assumes "compute_actor_grad env (zero_grad pol) (train_kl_div self env pol)
             (train_policy_objective self env) = Inr ((ps, og, gk, sh), calls)"
  shows "\<exists>L. search_setup self env pol = Inr (L, calls)
      \<and> l_search_direction L =
          conjugate_gradient_solver env
            (\<lambda>v. hessian_vector_product self env (param_data pol) ps gk v True) og
            (cg_max_steps self)
      \<and> l_max_step_size L =
          fsqrt (fdiv (fmul (Fin 2) (target_kl self))
                   (matmul (l_search_direction L)
                      (hessian_vector_product self env (param_data pol) ps gk
                         (l_search_direction L) False)))
      \<and> (\<forall>v rg. hessian_vector_product self env (param_data pol) ps gk v rg =
            vadd (flat_grad env (\<lambda>\<theta>'. vsum (vmul (gk \<theta>') v)) ps rg (param_data pol))
                 (vscale (cg_damping self) v))
      \<and> (\<forall>v rg. length (flat_grad env (\<lambda>\<theta>'. vsum (vmul (gk \<theta>') v)) ps rg (param_data pol)) =
                  length v \<longrightarrow>
                length (hessian_vector_product self env (param_data pol) ps gk v rg) = length v)
      \<and> (\<forall>t d xs gs.
            target_kl self = Fin t \<and> 0 \<le> t \<and> cg_damping self = Fin d
            \<and> l_search_direction L = map Fin xs
            \<and> flat_grad env (\<lambda>\<theta>'. vsum (vmul (gk \<theta>') (map Fin xs))) ps False (param_data pol) =
                map Fin gs
            \<and> length gs = length xs
            \<and> 0 < (\<Sum>(x, g) \<leftarrow> zip xs gs. x * (g + d * x))
            \<longrightarrow> l_max_step_size L =
                  Fin (sqrt (2 * t / (\<Sum>(x, g) \<leftarrow> zip xs gs. x * (g + d * x)))))"
proof -
  from search_setup_of_grad[OF assms] obtain L where
    L: "search_setup self env pol = Inr (L, calls)"
      "l_search_direction L =
          conjugate_gradient_solver env
            (\<lambda>v. hessian_vector_product self env (param_data pol) ps gk v True) og
            (cg_max_steps self)"
      "l_max_step_size L =
          max_step_size self (l_search_direction L)
            (hessian_vector_product self env (param_data pol) ps gk)"
    by blast
  have step: "l_max_step_size L =
          fsqrt (fdiv (fmul (Fin 2) (target_kl self))
                   (matmul (l_search_direction L)
                      (hessian_vector_product self env (param_data pol) ps gk
                         (l_search_direction L) False)))"
    using L(3) by (simp add: max_step_size_def Let_def)
  have hv: "hessian_vector_product self env (param_data pol) ps gk v rg =
            vadd (flat_grad env (\<lambda>\<theta>'. vsum (vmul (gk \<theta>') v)) ps rg (param_data pol))
                 (vscale (cg_damping self) v)" for v rg
    by (simp add: hessian_vector_product_def)
  have closed: "l_max_step_size L =
                  Fin (sqrt (2 * t / (\<Sum>(x, g) \<leftarrow> zip xs gs. x * (g + d * x))))"
    if h: "target_kl self = Fin t" "0 \<le> t" "cg_damping self = Fin d"
      "l_search_direction L = map Fin xs"
      "flat_grad env (\<lambda>\<theta>'. vsum (vmul (gk \<theta>') (map Fin xs))) ps False (param_data pol) =
                map Fin gs"
      "length gs = length xs"
      "0 < (\<Sum>(x, g) \<leftarrow> zip xs gs. x * (g + d * x))"
    for t d xs gs
  proof -
    have den: "matmul (l_search_direction L)
                      (hessian_vector_product self env (param_data pol) ps gk
                         (l_search_direction L) False) =
               Fin (\<Sum>(x, g) \<leftarrow> zip xs gs. x * (g + d * x))"
      unfolding hv h(3,4,5) by (rule curvature_Fin[OF h(6)])
    have "0 \<le> 2 * t / (\<Sum>(x, g) \<leftarrow> zip xs gs. x * (g + d * x))"
      using h(2,7) by simp
    then show ?thesis
      unfolding step den h(1) using h(7) by (simp add: not_less)
  qed
  have len: "length (flat_grad env (\<lambda>\<theta>'. vsum (vmul (gk \<theta>') v)) ps rg (param_data pol)) =
                  length v \<longrightarrow>
                length (hessian_vector_product self env (param_data pol) ps gk v rg) = length v"
    for v rg
    using length_hvp[of env gk v ps rg "param_data pol" self] by blast
  show ?thesis
  proof (intro exI[of _ L] conjI)
    show "search_setup self env pol = Inr (L, calls)" by (rule L(1))
    show "l_search_direction L =
          conjugate_gradient_solver env
            (\<lambda>v. hessian_vector_product self env (param_data pol) ps gk v True) og
            (cg_max_steps self)" by (rule L(2))
    show "l_max_step_size L =
          fsqrt (fdiv (fmul (Fin 2) (target_kl self))
                   (matmul (l_search_direction L)
                      (hessian_vector_product self env (param_data pol) ps gk
                         (l_search_direction L) False)))" by (rule step)
  qed (use hv len closed in blast)+
qed

section \<open>The batch: properties\<close>

lemma length_stride: "0 < k \<Longrightarrow> length (stride k xs) = (length xs + k - 1) div k"
proof (induction k xs rule: stride.induct)
  case (1 k)
  then show ?case by simp
next
  case (2 k x xs)
  show ?case
  proof (cases "length xs < k - 1")
    case True
    with 2 show ?thesis by (simp add: div_eq_0_iff) 
  next
    case False
    then have "length xs + k = (length xs - (k - 1) + k - 1) + k" using 2(2) by simp
    then have "(length xs + k) div k = (length xs - (k - 1) + k - 1) div k + 1"
      using 2(2) by (metis div_add_self2 less_numeral_extra(3))
    with 2 show ?thesis by simp
  qed
qed

lemma nth_stride: "0 < k \<Longrightarrow> i < length (stride k xs) \<Longrightarrow> stride k xs ! i = xs ! (i * k)"
proof (induction k xs arbitrary: i rule: stride.induct)
  case (1 k)
  then show ?case by simp
next
  case (2 k x xs)
  show ?case
  proof (cases i)
    case 0
    then show ?thesis by simp
  next
    case (Suc j)
    with 2(3) have j: "j < length (stride k (drop (k - 1) xs))" by simp
    have nz: "stride k (drop (k - 1) xs) \<noteq> []" using j by auto
    then have dn: "drop (k - 1) xs \<noteq> []" by auto
    have "j * k < length (drop (k - 1) xs)"
    proof -
      from j length_stride[OF 2(2), of "drop (k - 1) xs"]
      have "j < (length (drop (k - 1) xs) + k - 1) div k" by simp
      then have "Suc j \<le> (length (drop (k - 1) xs) + k - 1) div k" by simp
      then have "Suc j * k \<le> length (drop (k - 1) xs) + k - 1"
        using 2(2) by (simp add: less_eq_div_iff_mult_less_eq)
      then show ?thesis using 2(2) by simp
    qed
    then have le: "k - 1 + j * k < length xs" by simp
    from 2(1)[OF 2(2) j] have "stride k (drop (k - 1) xs) ! j = drop (k - 1) xs ! (j * k)" .
    also have "\<dots> = xs ! (k - 1 + j * k)" using le by simp
    also have "k - 1 + j * k = Suc j * k - 1" using 2(2) by simp
    finally show ?thesis using Suc 2(2) by (simp add: nth_Cons')
  qed
qed

text \<open>
  C9, as the code has it. With a sub-sampling factor \<open>k\<close> above 1 and the normalisation on,
  the train step first keeps every \<open>k\<close>-th element of the observations, the actions, the old
  log-probabilities and the advantages, and then normalises: the mean and the standard
  deviation are those of the advantages that are left, and these normalised advantages
  are the ones the line search uses.
\<close>

theorem stride_then_normalize:
  assumes "1 < sub_sampling_factor self" and "normalize_advantage self"
  shows "train_advantages self full_batch =
           normalize (stride (nat (sub_sampling_factor self)) (advantages full_batch))
       \<and> observations (sub_sample self full_batch) =
           stride (nat (sub_sampling_factor self)) (observations full_batch)
       \<and> actions (sub_sample self full_batch) =
           stride (nat (sub_sampling_factor self)) (actions full_batch)
       \<and> old_log_prob (sub_sample self full_batch) =
           stride (nat (sub_sampling_factor self)) (old_log_prob full_batch)
       \<and> length (stride (nat (sub_sampling_factor self)) (advantages full_batch)) =
           (length (advantages full_batch) + nat (sub_sampling_factor self) - 1)
             div nat (sub_sampling_factor self)
       \<and> (\<forall>i < length (stride (nat (sub_sampling_factor self)) (advantages full_batch)).
            stride (nat (sub_sampling_factor self)) (advantages full_batch) ! i =
              advantages full_batch ! (i * nat (sub_sampling_factor self)))
       \<and> (\<forall>env pol L calls. search_setup self env pol = Inr (L, calls) \<longrightarrow>
            l_advantages L =
              normalize (stride (nat (sub_sampling_factor self))
                           (advantages (rollout_get_all env))))"
proof -
  have k: "0 < nat (sub_sampling_factor self)" using assms(1) by simp
  have ta: "train_advantages self b =
           normalize (stride (nat (sub_sampling_factor self)) (advantages b))" for b :: "('x, 'y) rollout_samples"
    using assms by (simp add: train_advantages_def sub_sample_def)
  have ss: "observations (sub_sample self full_batch) =
           stride (nat (sub_sampling_factor self)) (observations full_batch)"
    "actions (sub_sample self full_batch) =
           stride (nat (sub_sampling_factor self)) (actions full_batch)"
    "old_log_prob (sub_sample self full_batch) =
           stride (nat (sub_sampling_factor self)) (old_log_prob full_batch)"
    using assms by (simp_all add: sub_sample_def)
  have la: "l_advantages L = normalize (stride (nat (sub_sampling_factor self))
                           (advantages (rollout_get_all env)))"
    if "search_setup self env pol = Inr (L, calls)" for env :: "('p, 'q, 'r) collab" and pol L calls
    using search_setup_fields(10)[OF that] ta by simp
  show ?thesis
    using ta ss length_stride[OF k] nth_stride[OF k] la by blast
qed

section \<open>The critic update and the curvature: properties\<close>













section \<open>The small instance: what the train step does there\<close>

lemma ex_rollout: "train_rollout_data (ex_trpo n) ex_env = ex_batch"
  by (simp add: train_rollout_data_def sub_sample_def ex_trpo_def default_trpo_def ex_env_def)

lemma ex_grad:
  "compute_actor_grad ex_env (zero_grad ex_policy) (train_kl_div (ex_trpo n) ex_env ex_policy)
     (train_policy_objective (ex_trpo n) ex_env) =
   Inr (([''action_net.weight''], [Fin 1], (\<lambda>\<theta>. [Fin 1]), [[1]]), ex_calls)"
  by (simp add: compute_actor_grad_def empty_grad_lists_def zero_grad_def ex_policy_def
        ex_env_def ex_calls_def scalar_tensor_def)

lemma ex_objective:
  "train_policy_objective (ex_trpo n) ex_env \<theta> =
     fdiv (fadd (Fin 0) (fmul (Fin 2) (fexp (fsub (first_elem (\<theta> ''action_net.weight'')) (Fin 0)))))
       (Fin 1)"
  by (simp add: train_policy_objective_def ex_rollout train_actions_def train_advantages_def
        Let_def surrogate_def vmean_def vsum_def vmul_def vexp_def vsub_def sub_sample_def)
     (simp add: ex_env_def ex_batch_def ex_trpo_def default_trpo_def)


lemma ex_search: "search_setup (ex_trpo n) ex_env ex_policy = Inr (ex_locals, ex_calls)"
  unfolding search_setup_def ex_grad
  apply (simp add: Let_def ex_rollout ex_objective train_actions_def train_advantages_def
     train_old_distribution_def sub_sample_def)
  apply (simp add: ex_locals_def ex_env_def ex_batch_def ex_trpo_def default_trpo_def
     ex_policy_def first_elem_def scalar_tensor_def fsub_def max_step_size_def Let_def
     hessian_vector_product_def matmul_def vmul_def vsum_def vadd_def vscale_def)
  done

theorem compute_actor_grad_aligned_witness:
  "compute_actor_grad ex_env (zero_grad ex_policy) (train_kl_div (ex_trpo 3) ex_env ex_policy)
     (train_policy_objective (ex_trpo 3) ex_env) =
     Inr (([''action_net.weight''], [Fin 1], (\<lambda>\<theta>. [Fin 1]), [[1]]), ex_calls)
   \<and> \<not> str_contains ''value'' ''action_net.weight''
   \<and> length [[1::nat]] = length [''action_net.weight'']
   \<and> [''action_net.weight''] =
       filter (selected ex_env (train_kl_div (ex_trpo 3) ex_env ex_policy))
         (param_names (zero_grad ex_policy))"
proof -
  from compute_actor_grad_aligned[OF ex_grad[of 3]]
  have a: "\<forall>n \<in> set [''action_net.weight'']. \<not> str_contains ''value'' n"
    and b: "length [[1::nat]] = length [''action_net.weight'']"
    and c: "[''action_net.weight''] =
       filter (selected ex_env (train_kl_div (ex_trpo 3) ex_env ex_policy))
         (param_names (zero_grad ex_policy))"
    by blast+
  from a have a': "\<not> str_contains ''value'' ''action_net.weight''"
    by (simp del: str_contains.simps)
  from ex_grad[of 3] a' b c show ?thesis by blast
qed

theorem absent_gradient_excluded_witness:
  "\<not> str_contains ''value'' ''features.bias''
   \<and> autograd_grad ex_env (train_kl_div (ex_trpo 3) ex_env ex_policy) ''features.bias'' = None
   \<and> ''features.bias'' \<notin> set [''action_net.weight'']
   \<and> ObjectiveGrad ''features.bias'' \<notin> set ex_calls
   \<and> map_sum id fst
        (compute_actor_grad ex_env (zero_grad ex_policy)
           (train_kl_div (ex_trpo 3) ex_env ex_policy) (train_policy_objective (ex_trpo 3) ex_env)) =
      map_sum id fst
        (compute_actor_grad ex_env
           (zero_grad ex_policy
              \<lparr>param_names := filter (\<lambda>m. m \<noteq> ''features.bias'')
                                (param_names (zero_grad ex_policy))\<rparr>)
           (train_kl_div (ex_trpo 3) ex_env ex_policy) (train_policy_objective (ex_trpo 3) ex_env))"
proof -
  have h1: "\<not> str_contains ''value'' ''features.bias''" by simp
  have h2: "autograd_grad ex_env (train_kl_div (ex_trpo 3) ex_env ex_policy) ''features.bias'' = None"
    by (simp add: ex_env_def)
  from absent_gradient_excluded[OF h1 h2, of "zero_grad ex_policy"
         "train_policy_objective (ex_trpo 3) ex_env"] ex_grad[of 3] h1 h2
  show ?thesis by blast
qed

theorem max_step_size_formula_witness:
  "compute_actor_grad ex_env (zero_grad ex_policy) (train_kl_div (ex_trpo 3) ex_env ex_policy)
     (train_policy_objective (ex_trpo 3) ex_env) =
     Inr (([''action_net.weight''], [Fin 1], (\<lambda>\<theta>. [Fin 1]), [[1]]), ex_calls)
   \<and> (\<exists>L. search_setup (ex_trpo 3) ex_env ex_policy = Inr (L, ex_calls)
          \<and> l_search_direction L = [Fin (1 / 10)]
          \<and> l_max_step_size L = Fin 2)"
proof -
  from max_step_size_formula[OF ex_grad[of 3]] obtain L where
    L: "search_setup (ex_trpo 3) ex_env ex_policy = Inr (L, ex_calls)"
    and x: "l_search_direction L =
          conjugate_gradient_solver ex_env
            (\<lambda>v. hessian_vector_product (ex_trpo 3) ex_env (param_data ex_policy)
                    [''action_net.weight''] (\<lambda>\<theta>. [Fin 1]) v True) [Fin 1]
            (cg_max_steps (ex_trpo 3))"
    and closed: "\<forall>t d xs gs.
            target_kl (ex_trpo 3) = Fin t \<and> 0 \<le> t \<and> cg_damping (ex_trpo 3) = Fin d
            \<and> l_search_direction L = map Fin xs
            \<and> flat_grad ex_env (\<lambda>\<theta>'. vsum (vmul ((\<lambda>\<theta>. [Fin 1]) \<theta>') (map Fin xs)))
                 [''action_net.weight''] False (param_data ex_policy) = map Fin gs
            \<and> length gs = length xs
            \<and> 0 < (\<Sum>(x, g) \<leftarrow> zip xs gs. x * (g + d * x))
            \<longrightarrow> l_max_step_size L =
                  Fin (sqrt (2 * t / (\<Sum>(x, g) \<leftarrow> zip xs gs. x * (g + d * x))))"
    by blast
  have x': "l_search_direction L = [Fin (1 / 10)]"
    using x by (simp add: ex_env_def)
  have "l_max_step_size L =
          Fin (sqrt (2 * (1 / 100) / (\<Sum>(x, g) \<leftarrow> zip [1 / 10] [4 / 100]. x * (g + (1 / 10) * x))))"
    by (rule closed[rule_format, of "1 / 100" "1 / 10" "[1 / 10]" "[4 / 100]"])
       (simp add: x' ex_env_def ex_trpo_def default_trpo_def)
  then have "l_max_step_size L = Fin 2" by simp
  with L x' ex_grad[of 3] show ?thesis by blast
qed

lemma first_elem_scalar: "first_elem (scalar_tensor v) = v"
  by (simp add: first_elem_def scalar_tensor_def)


lemma ex_trial:
  "numel (\<theta> ''action_net.weight'') = 1 \<Longrightarrow>
   trial (ex_locals\<lparr>l_max_step_size := s\<rparr>) coeff \<theta> =
     \<theta>(''action_net.weight'' := scalar_tensor (fadd (Fin 0) (fmul (fmul coeff s) (Fin (1 / 10)))))"
  by (simp add: trial_def zipped_params_def ex_locals_def Let_def scalar_tensor_def tadd_def
        tscale_def view_def vadd_def vscale_def)

lemma ex_locals_id: "ex_locals\<lparr>l_max_step_size := Fin 2\<rparr> = ex_locals"
  by (simp add: ex_locals_def)

lemma ex_new_kl:
  "new_kl ex_env (ex_locals\<lparr>l_max_step_size := s\<rparr>) \<theta> =
     fdiv (fadd (Fin 0)
             (fdiv (fmul (fsub (first_elem (\<theta> ''action_net.weight'')) (Fin 0))
                         (fsub (first_elem (\<theta> ''action_net.weight'')) (Fin 0))) (Fin 4)))
       (Fin 1)"
  by (simp add: new_kl_def ex_locals_def ex_env_def vmean_def vsum_def)

lemma ex_new_objective:
  "new_objective ex_env (ex_locals\<lparr>l_max_step_size := s\<rparr>) \<theta> =
     fdiv (fadd (Fin 0) (fmul (Fin 2) (fexp (fsub (first_elem (\<theta> ''action_net.weight'')) (Fin 0)))))
       (Fin 1)"
  by (simp add: new_objective_def ex_locals_def ex_env_def surrogate_def vmean_def vsum_def
        vmul_def vexp_def vsub_def)

lemma ex_dist:
  "get_distribution ex_env \<theta> (l_observations (ex_locals\<lparr>l_max_step_size := s\<rparr>)) =
     [first_elem (\<theta> ''action_net.weight'')]"
  by (simp add: ex_env_def ex_locals_def)

lemma ex_numel0: "numel (param_data ex_policy ''action_net.weight'') = 1"
  by (simp add: ex_policy_def numel_def scalar_tensor_def)


lemma ex_line_search_1:
  "line_search (ex_trpo 1) ex_env ex_locals (nat (line_search_max_iter (ex_trpo 1))) (Fin 1)
     (param_data ex_policy) [(l_first_distribution ex_locals, l_old_distribution ex_locals)] =
   (Exhausted ((param_data ex_policy)(''action_net.weight'' := scalar_tensor (Fin (1 / 5)))),
    [([Fin 0], [Fin 0]), ([Fin (1 / 5)], [Fin 0])])"
proof -
  have n: "nat (line_search_max_iter (ex_trpo 1)) = Suc 0" by (simp add: ex_trpo_def)
  have tk: "target_kl (ex_trpo 1) = Fin (1 / 100)" by (simp add: ex_trpo_def default_trpo_def)
  have t0: "trial ex_locals (Fin 1) (param_data ex_policy) =
            (param_data ex_policy)(''action_net.weight'' := scalar_tensor (Fin (1 / 5)))"
    using ex_trial[of "param_data ex_policy" "Fin 2" "Fin 1"] ex_numel0 by (simp add: ex_locals_id)
  have k: "new_kl ex_env ex_locals
             ((param_data ex_policy)(''action_net.weight'' := scalar_tensor (Fin (1 / 5)))) =
           Fin (1 / 100)"
    using ex_new_kl[of "Fin 2"] by (simp add: ex_locals_id first_elem_scalar fsub_def)
  have d: "get_distribution ex_env
             ((param_data ex_policy)(''action_net.weight'' := scalar_tensor (Fin (1 / 5))))
             (l_observations ex_locals) = [Fin (1 / 5)]"
    using ex_dist[of _ "Fin 2"] by (simp add: ex_locals_id first_elem_scalar)
  have l: "l_first_distribution ex_locals = [Fin 0]" "l_old_distribution ex_locals = [Fin 0]"
    by (simp_all add: ex_locals_def)
  show ?thesis
    unfolding n by (simp add: Let_def t0 k d tk l)
qed

lemma ex_rets: "\<forall>i. \<forall>b \<in> set (rollout_get ex_env i (batch_size (ex_trpo n))). returns b \<noteq> None"
  by (simp add: ex_env_def ex_batch_def)

theorem revert_exact_witness:
  "search_setup (ex_trpo 1) ex_env ex_policy = Inr (ex_locals, ex_calls)
   \<and> fst (line_search (ex_trpo 1) ex_env ex_locals (nat (line_search_max_iter (ex_trpo 1))) (Fin 1)
            (param_data ex_policy) [(l_first_distribution ex_locals, l_old_distribution ex_locals)]) =
       Exhausted ((param_data ex_policy)(''action_net.weight'' := scalar_tensor (Fin (1 / 5))))
   \<and> \<not> (\<exists>i b. b \<in> set (rollout_get ex_env i (batch_size (ex_trpo 1))) \<and> returns b = None)
   \<and> (\<exists>a r. actor_update (ex_trpo 1) ex_env ex_policy = Inr a
            \<and> \<not> a_line_search_result a
            \<and> param_data (a_policy a) ''action_net.weight'' = scalar_tensor (Fin 0)
            \<and> train (ex_trpo 1) ex_env ex_policy = Inr r
            \<and> policy_objective_values r = [Fin 2]
            \<and> kl_divergences r = [Fin 0]
            \<and> line_search_results r = [False])"
proof -
  have h1: "search_setup (ex_trpo 1) ex_env ex_policy = Inr (ex_locals, ex_calls)"
    by (rule ex_search)
  have h2: "fst (line_search (ex_trpo 1) ex_env ex_locals (nat (line_search_max_iter (ex_trpo 1)))
            (Fin 1) (param_data ex_policy)
            [(l_first_distribution ex_locals, l_old_distribution ex_locals)]) =
       Exhausted ((param_data ex_policy)(''action_net.weight'' := scalar_tensor (Fin (1 / 5))))"
    unfolding ex_line_search_1 by simp
  have h3: "\<forall>i. \<forall>b \<in> set (rollout_get ex_env i (batch_size (ex_trpo 1))). returns b \<noteq> None"
    by (rule ex_rets)
  have o0: "train_policy_objective (ex_trpo 1) ex_env (param_data ex_policy) = Fin 2"
    by (simp add: ex_objective ex_policy_def first_elem_scalar fsub_def)
  from revert_exact[OF h1 h2 h3] obtain a r where
    ar: "actor_update (ex_trpo 1) ex_env ex_policy = Inr a" "\<not> a_line_search_result a"
      "a_actor_params a = l_actor_params ex_locals"
      "\<forall>p \<in> set (a_actor_params a). param_data (a_policy a) p = param_data ex_policy p"
      "train (ex_trpo 1) ex_env ex_policy = Inr r"
      "policy_objective_values r = [train_policy_objective (ex_trpo 1) ex_env (param_data ex_policy)]"
      "kl_divergences r = [Fin 0]" "line_search_results r = [False]"
    by blast
  have p: "param_data (a_policy a) ''action_net.weight'' = scalar_tensor (Fin 0)"
    using ar(3,4) by (simp add: ex_locals_def ex_policy_def)
  have h3': "\<not> (\<exists>i b. b \<in> set (rollout_get ex_env i (batch_size (ex_trpo 1))) \<and> returns b = None)"
    using h3 by blast
  from h1 h2 h3' ar(1,2,5,7,8) ar(6)[unfolded o0] p show ?thesis by blast
qed

lemma ex_train: "\<exists>r. train (ex_trpo n) ex_env ex_policy = Inr r"
proof -
  obtain a where a: "actor_update (ex_trpo n) ex_env ex_policy = Inr a"
    using actor_update_eq[OF ex_search] by blast
  obtain res where "critic_update (ex_trpo n) ex_env (a_actor_params a)
      (nat (n_critic_updates (ex_trpo n))) 0 (a_policy a) [] = Inr res"
    using critic_update_Inr[OF ex_rets] by blast
  with a show ?thesis by (cases res) (simp add: train_def)
qed

theorem old_distribution_fixed_witness:
  "\<exists>r. train (ex_trpo 3) ex_env ex_policy = Inr r
      \<and> r_kl_calls r \<noteq> []
      \<and> snd (hd (r_kl_calls r)) = [Fin 0]
      \<and> snd (last (r_kl_calls r)) = [Fin 0]"
proof -
  from ex_train obtain r where r: "train (ex_trpo 3) ex_env ex_policy = Inr r" by blast
  have old: "get_distribution ex_env (param_data ex_policy)
               (observations (train_rollout_data (ex_trpo 3) ex_env)) = [Fin 0]"
    by (simp add: ex_rollout) (simp add: ex_env_def ex_batch_def ex_policy_def first_elem_scalar)
  from old_distribution_fixed[OF r] have
    a: "\<forall>p \<in> set (r_kl_calls r). snd p = [Fin 0]" and b: "r_kl_calls r \<noteq> []"
    unfolding old by blast+
  from a b have "snd (hd (r_kl_calls r)) = [Fin 0]" "snd (last (r_kl_calls r)) = [Fin 0]"
    by simp_all
  with r b show ?thesis by blast
qed

lemma sqrt_16: "sqrt 16 = 4"
  by (rule real_sqrt_unique) simp_all

lemma normalize_012:
  "normalize [Fin 0, Fin 1, Fin 2] =
     [Fin (- 1 / (1 + 1 / 10 ^ 8)), Fin 0, Fin (1 / (1 + 1 / 10 ^ 8))]"
  by (simp add: normalize_def vmean_def vstd_def vsum_def fsub_def)

lemma normalize_full:
  "normalize [Fin 0, Fin 2, Fin 1, Fin 10, Fin 2] =
     [Fin (- 3 / (4 + 1 / 10 ^ 8)), Fin (- 1 / (4 + 1 / 10 ^ 8)), Fin (- 2 / (4 + 1 / 10 ^ 8)),
      Fin (7 / (4 + 1 / 10 ^ 8)), Fin (- 1 / (4 + 1 / 10 ^ 8))]"
  by (simp add: normalize_def vmean_def vstd_def vsum_def fsub_def sqrt_16)

lemma stride_2_5: "stride 2 [a, b, c, d, e] = [a, c, e]"
  by (simp add: numeral_2_eq_2)

theorem stride_then_normalize_witness:
  "1 < sub_sampling_factor (default_trpo\<lparr>sub_sampling_factor := 2\<rparr>)
   \<and> normalize_advantage (default_trpo\<lparr>sub_sampling_factor := 2\<rparr>)
   \<and> train_advantages (default_trpo\<lparr>sub_sampling_factor := 2\<rparr>) ex_batch5 =
       [Fin (- 1 / (1 + 1 / 10 ^ 8)), Fin 0, Fin (1 / (1 + 1 / 10 ^ 8))]
   \<and> observations (sub_sample (default_trpo\<lparr>sub_sampling_factor := 2\<rparr>) ex_batch5) = [0, 2, 4]"
proof -
  let ?self = "default_trpo\<lparr>sub_sampling_factor := 2\<rparr>"
  have h1: "1 < sub_sampling_factor ?self" by simp
  have h2: "normalize_advantage ?self" by (simp add: default_trpo_def)
  have k: "nat (sub_sampling_factor ?self) = 2" by simp
  from stride_then_normalize[OF h1 h2, of ex_batch5] have
    "train_advantages ?self ex_batch5 = normalize (stride 2 (advantages ex_batch5))"
    "observations (sub_sample ?self ex_batch5) = stride 2 (observations ex_batch5)"
    unfolding k by blast+
  then have "train_advantages ?self ex_batch5 =
       [Fin (- 1 / (1 + 1 / 10 ^ 8)), Fin 0, Fin (1 / (1 + 1 / 10 ^ 8))]"
    "observations (sub_sample ?self ex_batch5) = [0, 2, 4]"
    by (simp_all add: ex_batch5_def stride_2_5 normalize_012)
  with h1 h2 show ?thesis by blast
qed

text \<open>
  On five advantages with factor 2 the advantages of the train step are normalised with
  the mean 1 and the deviation 1 of the three that are kept, not with the mean 3 and the
  deviation 4 of the five.
\<close>

theorem normalize_then_stride_counterexample:
  "train_advantages (default_trpo\<lparr>sub_sampling_factor := 2\<rparr>) ex_batch5 =
     [Fin (- 1 / (1 + 1 / 10 ^ 8)), Fin 0, Fin (1 / (1 + 1 / 10 ^ 8))]
   \<and> normalize_then_stride (default_trpo\<lparr>sub_sampling_factor := 2\<rparr>) ex_batch5 =
     [Fin (- 3 / (4 + 1 / 10 ^ 8)), Fin (- 2 / (4 + 1 / 10 ^ 8)), Fin (- 1 / (4 + 1 / 10 ^ 8))]
   \<and> train_advantages (default_trpo\<lparr>sub_sampling_factor := 2\<rparr>) ex_batch5 \<noteq>
     normalize_then_stride (default_trpo\<lparr>sub_sampling_factor := 2\<rparr>) ex_batch5"
proof -
  let ?self = "default_trpo\<lparr>sub_sampling_factor := 2\<rparr>"
  have a: "train_advantages ?self ex_batch5 =
     [Fin (- 1 / (1 + 1 / 10 ^ 8)), Fin 0, Fin (1 / (1 + 1 / 10 ^ 8))]"
    by (simp add: train_advantages_def sub_sample_def default_trpo_def ex_batch5_def
          stride_2_5 normalize_012)
  have b: "normalize_then_stride ?self ex_batch5 =
     [Fin (- 3 / (4 + 1 / 10 ^ 8)), Fin (- 2 / (4 + 1 / 10 ^ 8)), Fin (- 1 / (4 + 1 / 10 ^ 8))]"
    by (simp add: normalize_then_stride_def ex_batch5_def normalize_full stride_2_5)
  have c: "train_advantages ?self ex_batch5 \<noteq> normalize_then_stride ?self ex_batch5"
    unfolding a b by simp
  from a b c show ?thesis by blast
qed














end
